theory Spec2Isabelle
  imports Main
begin

section \<open>The retrying persistence adapter (\<^verbatim>\<open>withRetry\<close>, index.js lines 165-190)\<close>

text \<open>
  \<^verbatim>\<open>withRetry(operation, options = RETRY_OPTIONS)\<close> runs \<^verbatim>\<open>operation\<close> inside a
  \<^verbatim>\<open>for (let i = 0; i < options.maxRetries; i++)\<close> loop. The operation is opaque; it is
  modelled as a function on an arbitrary state \<open>'st\<close> (the outside world), which returns
  either a thrown value (\<open>Inl\<close>) or a result (\<open>Inr\<close>) together with the next state, so that
  successive invocations may end differently.

  The function returns what the JavaScript returns or throws, the final state, and the
  list of what it did, in order: every invocation with its outcome, every
  \<^verbatim>\<open>console.error\<close> (with the attempt number \<open>i + 1\<close> it prints) and every
  \<^verbatim>\<open>setTimeout\<close> wait with its delay in milliseconds.

  \<^verbatim>\<open>lastError\<close> is \<^verbatim>\<open>undefined\<close> until the first failure: it is an option, and
  \<^verbatim>\<open>throw lastError\<close> throws it as it is. The options are natural numbers and integers;
  \<open>maxRetries options - 1\<close> is only evaluated under \<open>i < maxRetries options\<close>, where the
  truncating subtraction of \<open>nat\<close> agrees with the subtraction of the source.
\<close>

record retry_options =
  maxRetries :: nat
  baseDelay :: int
  maxDelay :: int

definition RETRY_OPTIONS :: retry_options where
  "RETRY_OPTIONS = \<lparr>maxRetries = 3, baseDelay = 1000, maxDelay = 5000\<rparr>"

datatype ('e, 'a) retry_event =
    Attempt "'e + 'a"
  | ErrorLogged nat
  | Delay int

function withRetry_from ::
  "retry_options \<Rightarrow> ('st \<Rightarrow> ('e + 'a) \<times> 'st) \<Rightarrow> nat \<Rightarrow> 'e option \<Rightarrow> 'st
    \<Rightarrow> ('e option + 'a) \<times> 'st \<times> ('e, 'a) retry_event list" where
  "withRetry_from options operation i lastError st =
     (if i < maxRetries options then
        (case operation st of
           (Inr v, st') \<Rightarrow> (Inr v, st', [Attempt (Inr v)])
         | (Inl error, st') \<Rightarrow>
             (case withRetry_from options operation (i + 1) (Some error) st' of
                (r, st'', evs) \<Rightarrow>
                  (r, st'',
                   [Attempt (Inl error), ErrorLogged (i + 1)]
                   @ (if i < maxRetries options - 1
                      then [Delay (min (baseDelay options * 2 ^ i) (maxDelay options))]
                      else [])
                   @ evs)))
      else (Inl lastError, st, []))"
  by pat_completeness auto
termination
  by (relation "measure (\<lambda>(options, operation, i, lastError, st). maxRetries options - i)") auto

declare withRetry_from.simps [simp del]

definition withRetry ::
  "retry_options \<Rightarrow> ('st \<Rightarrow> ('e + 'a) \<times> 'st) \<Rightarrow> 'st
    \<Rightarrow> ('e option + 'a) \<times> 'st \<times> ('e, 'a) retry_event list" where
  "withRetry options operation st = withRetry_from options operation 0 None st"

text \<open>
  Observations on the list of what \<open>withRetry\<close> did: the outcomes of the invocations, in
  order, and for each invocation the delays waited since the invocation before it.
\<close>

fun attempts :: "('e, 'a) retry_event list \<Rightarrow> ('e + 'a) list" where
  "attempts [] = []"
| "attempts (Attempt r # evs) = r # attempts evs"
| "attempts (ErrorLogged n # evs) = attempts evs"
| "attempts (Delay d # evs) = attempts evs"

fun delays_before :: "('e, 'a) retry_event list \<Rightarrow> int list \<Rightarrow> int list list" where
  "delays_before [] waited = []"
| "delays_before (Attempt r # evs) waited = waited # delays_before evs []"
| "delays_before (ErrorLogged n # evs) waited = delays_before evs waited"
| "delays_before (Delay d # evs) waited = delays_before evs (waited @ [d])"

text \<open>An operation used to exercise the adapter: it fails twice and then succeeds.\<close>

definition flaky :: "nat \<Rightarrow> (string + nat) \<times> nat" where
  "flaky n = (if n < 2 then Inl ''timeout'' else Inr 42, Suc n)"

section \<open>Strings (\<^verbatim>\<open>reconstructEmail\<close>, \<^verbatim>\<open>validateEmail\<close>, \<^verbatim>\<open>sanitizeInput\<close>)\<close>

text \<open>
  A JavaScript string is modelled as a \<open>string\<close> whose characters are the code units
  U+0000 to U+00FF. On these, \<^verbatim>\<open>\s\<close> and \<^verbatim>\<open>trim()\<close> take tab, line feed, vertical
  tab, form feed, carriage return, space and the no-break space U+00A0 as white space;
  \<^verbatim>\<open>\b\<close> is a boundary of \<^verbatim>\<open>[A-Za-z0-9_]\<close>; \<^verbatim>\<open>toLowerCase()\<close> maps A-Z and the
  upper-case letters U+00C0 to U+00DE (without the multiplication sign U+00D7) to the code
  unit 32 above.
\<close>

definition isWhitespace :: "char \<Rightarrow> bool" where
  "isWhitespace c \<longleftrightarrow> c \<in> set [CHR 0x09, CHR 0x0A, CHR 0x0B, CHR 0x0C, CHR 0x0D, CHR 0x20, CHR 0xA0]"

definition isWordChar :: "char \<Rightarrow> bool" where
  "isWordChar c \<longleftrightarrow>
     (let n = (of_char c :: nat)
      in (48 \<le> n \<and> n \<le> 57) \<or> (65 \<le> n \<and> n \<le> 90) \<or> n = 95 \<or> (97 \<le> n \<and> n \<le> 122))"

definition lowerChar :: "char \<Rightarrow> char" where
  "lowerChar c =
     (let n = (of_char c :: nat)
      in if (65 \<le> n \<and> n \<le> 90) \<or> (192 \<le> n \<and> n \<le> 222 \<and> n \<noteq> 215)
         then char_of (n + 32) else c)"

definition toLowerCase :: "string \<Rightarrow> string" where
  "toLowerCase s = map lowerChar s"

definition trim :: "string \<Rightarrow> string" where
  "trim s = rev (dropWhile isWhitespace (rev (dropWhile isWhitespace s)))"

text \<open>\<^verbatim>\<open>s.includes(sub)\<close>: \<open>sub\<close> occurs in \<open>s\<close> at some position.\<close>

fun includes_str :: "string \<Rightarrow> string \<Rightarrow> bool" where
  "includes_str [] sub = (sub = [])"
| "includes_str (c # cs) sub = (take (length sub) (c # cs) = sub \<or> includes_str cs sub)"

text \<open>
  \<^verbatim>\<open>s.replace(/\bWORD\b/g, r)\<close> for a word of word characters: the string is scanned from
  the left; at a position that follows no word character, where the word starts and is
  followed by no word character, the word is replaced by \<open>r\<close> and the scan goes on behind
  it; elsewhere the character is kept. \<open>after_word\<close> tells whether the character before the
  position is a word character.
\<close>

fun replace_word :: "string \<Rightarrow> char \<Rightarrow> bool \<Rightarrow> string \<Rightarrow> string" where
  "replace_word w r after_word [] = []"
| "replace_word w r after_word (c # cs) =
     (if \<not> after_word \<and> take (length w) (c # cs) = w
         \<and> (case drop (length w) (c # cs) of [] \<Rightarrow> True | d # _ \<Rightarrow> \<not> isWordChar d)
      then r # replace_word w r True (drop (length w - 1) cs)
      else c # replace_word w r (isWordChar c) cs)"

definition reconstructEmail :: "string \<Rightarrow> string" where
  "reconstructEmail spelledOutEmail =
     filter (\<lambda>c. \<not> isWhitespace c)
       (replace_word ''dot'' CHR ''.'' False
         (replace_word ''at'' CHR ''@'' False (toLowerCase spelledOutEmail)))"

text \<open>
  The pattern of \<^verbatim>\<open>validateEmail\<close>, \<^verbatim>\<open>/^[^\s@]+@[^\s@]+\.[^\s@]+$/\<close>, is a sequence of
  literal characters and of character classes repeated once or more, anchored at both
  ends. \<open>matches\<close> decides whether a whole string matches such a sequence.
\<close>

datatype pattern_item = Lit char | ClassPlus "char \<Rightarrow> bool"

function matches :: "pattern_item list \<Rightarrow> string \<Rightarrow> bool" where
  "matches [] s = (s = [])"
| "matches (Lit c # items) s =
     (case s of [] \<Rightarrow> False | x # xs \<Rightarrow> x = c \<and> matches items xs)"
| "matches (ClassPlus p # items) s =
     (case s of [] \<Rightarrow> False
      | x # xs \<Rightarrow> p x \<and> (matches (ClassPlus p # items) xs \<or> matches items xs))"
  by pat_completeness auto
termination
  by (relation "measure (\<lambda>(items, s). length s)") auto

declare matches.simps [simp del]

definition notSpaceOrAt :: "char \<Rightarrow> bool" where
  "notSpaceOrAt c \<longleftrightarrow> \<not> isWhitespace c \<and> c \<noteq> CHR ''@''"

definition validateEmail :: "string \<Rightarrow> bool" where
  "validateEmail email_text =
     matches [ClassPlus notSpaceOrAt, Lit CHR ''@'', ClassPlus notSpaceOrAt, Lit CHR ''.'',
              ClassPlus notSpaceOrAt] email_text"


text \<open>\<^verbatim>\<open>sanitizeInput\<close>: \<^verbatim>\<open>input.replace(/[\n\r]/g, ' ').trim()\<close>.\<close>

definition sanitizeInput :: "string \<Rightarrow> string" where
  "sanitizeInput input =
     trim (map (\<lambda>c. if c = CHR 0x0A \<or> c = CHR 0x0D then CHR '' '' else c) input)"

section \<open>The session, the outside world and the effects of a handler\<close>

text \<open>
  The booking state is stored as one of five string literals; no other value is ever
  assigned to \<^verbatim>\<open>bookingState\<close>.
\<close>

datatype bstate = idle | awaiting_time | awaiting_email | confirm_email | confirm_existing_email

text \<open>
  The fields that \<^verbatim>\<open>initializeOpenAiWebSocket\<close> and \<^verbatim>\<open>handleTwilioMessage\<close> attach to
  the model socket, the socket's \<^verbatim>\<open>readyState\<close> (only \<^verbatim>\<open>OPEN\<close> or not), the
  \<^verbatim>\<open>streamSid\<close> variable of the media-stream closure, and the state \<open>world\<close> of everything
  outside the process (storage, calendar, clock). \<^verbatim>\<open>null\<close> and \<^verbatim>\<open>undefined\<close> are
  \<open>None\<close>.
\<close>

record 'w session =
  fullDialogue :: string
  awaitingName :: bool
  phoneNumber :: "string option"
  lastUserMessage :: "string option"
  conversationId :: "string option"
  sessionReady :: bool
  sendingFunctionCallOutput :: bool
  bookingState :: bstate
  preferred_time :: "string option"
  email :: "string option"
  callSid :: "string option"
  streamSid :: "string option"
  readyStateOpen :: bool
  world :: 'w

text \<open>A value is truthy in a JavaScript condition when it is a non-empty string.\<close>

definition truthy :: "string option \<Rightarrow> bool" where
  "truthy x = (case x of None \<Rightarrow> False | Some v \<Rightarrow> v \<noteq> [])"

text \<open>A template literal prints \<^verbatim>\<open>undefined\<close> for a missing value.\<close>

definition shown :: "string option \<Rightarrow> string" where
  "shown x = (case x of None \<Rightarrow> ''undefined'' | Some v \<Rightarrow> v)"

text \<open>Rows returned by the storage layer and the answer of the calendar service.\<close>

record user =
  user_name :: "string option"
  user_email :: "string option"

record conversation =
  conversation_id :: "string option"
  summary :: "string option"

record calendar_response =
  status :: int
  event_id :: "string option"

text \<open>
  Every text that a handler asks the model to speak is fixed by the source up to the
  values printed into it; a prompt is named by its place in the source and carries those
  values.
\<close>

datatype prompt =
    NewUserPrompt
  | ReturningUserPrompt string "string option"
  | AskSuitableTime
  | TimeNotUnderstood
  | AskEmail
  | OfferStoredEmail string
  | ConfirmEmailSpelling string
  | EmailNotValid
  | BookingSucceeded
  | BookingSucceededStored
  | BookingFailed
  | AskNewEmail
  | SummarizeKnowledge string

datatype model_msg =
    SessionUpdate
  | ResponseCancel
  | ResponseCreate prompt
  | AssistantItem string
  | FunctionCallOutput string
  | AudioAppend "string option"

datatype twilio_msg =
    Clear "string option"
  | Media "string option" string

datatype call =
    CreateOrGetUser | UpdateUserName | UpdateUserEmail | CreateConversation
  | UpdateConversation | FinalizeConversationInDb | GetLastConversation | CreateBooking
  | UpdateBookingState bstate | CalendarInsert | ParseDate | FetchCall | FetchSummary
  | ExtractUserName | ExtractEmail | AskAssistant

datatype field = Preferred_time | Email | BookingState

text \<open>
  What a handler does, in order: messages sent on the model socket and on the telephony
  socket, console output (named by the fixed text it starts with), invocations of outside
  operations, waits, and every assignment to \<^verbatim>\<open>preferred_time\<close>, \<^verbatim>\<open>email\<close> and
  \<^verbatim>\<open>bookingState\<close>. An assignment is recorded with the booking state at the moment of the
  assignment, and with the values of \<^verbatim>\<open>email\<close> and \<^verbatim>\<open>bookingState\<close> right after it.
\<close>

datatype effect =
    ToModel model_msg
  | ToTwilio twilio_msg
  | Log string
  | Invoked call
  | Slept int
  | Assigned field bstate "string option" bstate

text \<open>
  A handler either completes with a value or throws; in both cases the assignments made
  so far stay in the session and the effects so far have happened.
\<close>

datatype thrown =
    TypeError | SyntaxError | RangeError | ReferenceError
  | Rejected "string option"
  | Failure string

datatype ('a, 'w) res =
    Done 'a "'w session" "effect list"
  | Threw thrown "'w session" "effect list"

fun state_of :: "('a, 'w) res \<Rightarrow> 'w session" where
  "state_of (Done a s evs) = s"
| "state_of (Threw e s evs) = s"

fun effects_of :: "('a, 'w) res \<Rightarrow> effect list" where
  "effects_of (Done a s evs) = evs"
| "effects_of (Threw e s evs) = evs"

fun value_of :: "('a, 'w) res \<Rightarrow> 'a option" where
  "value_of (Done a s evs) = Some a"
| "value_of (Threw e s evs) = None"

fun after :: "effect list \<Rightarrow> ('a, 'w) res \<Rightarrow> ('a, 'w) res" where
  "after pre (Done a s evs) = Done a s (pre @ evs)"
| "after pre (Threw e s evs) = Threw e s (pre @ evs)"

text \<open>\<open>bnd m f\<close>: run \<open>m\<close>, then \<open>f\<close> on its value, unless \<open>m\<close> threw.\<close>

fun bnd :: "('a, 'w) res \<Rightarrow> ('a \<Rightarrow> 'w session \<Rightarrow> ('b, 'w) res) \<Rightarrow> ('b, 'w) res" where
  "bnd (Done a s evs) f = after evs (f a s)"
| "bnd (Threw e s evs) f = Threw e s evs"

text \<open>\<open>try_catch m h\<close>: a \<^verbatim>\<open>try\<close> block \<open>m\<close> with the \<^verbatim>\<open>catch\<close> block \<open>h\<close>.\<close>

fun try_catch :: "('a, 'w) res \<Rightarrow> (thrown \<Rightarrow> 'w session \<Rightarrow> ('a, 'w) res) \<Rightarrow> ('a, 'w) res" where
  "try_catch (Done a s evs) h = Done a s evs"
| "try_catch (Threw e s evs) h = after evs (h e s)"

text \<open>A sequence of statements, run in order until one throws.\<close>

fun steps :: "('w session \<Rightarrow> (unit, 'w) res) list \<Rightarrow> 'w session \<Rightarrow> (unit, 'w) res" where
  "steps [] s = Done () s []"
| "steps (step # rest) s = bnd (step s) (\<lambda>_. steps rest)"

definition emit :: "effect \<Rightarrow> 'w session \<Rightarrow> (unit, 'w) res" where
  "emit e s = Done () s [e]"

definition assign_preferred_time :: "string option \<Rightarrow> 'w session \<Rightarrow> (unit, 'w) res" where
  "assign_preferred_time v s =
     Done () (s\<lparr>preferred_time := v\<rparr>) [Assigned Preferred_time (bookingState s) (email s) (bookingState s)]"

definition assign_email :: "string option \<Rightarrow> 'w session \<Rightarrow> (unit, 'w) res" where
  "assign_email v s =
     Done () (s\<lparr>email := v\<rparr>) [Assigned Email (bookingState s) v (bookingState s)]"

definition assign_bookingState :: "bstate \<Rightarrow> 'w session \<Rightarrow> (unit, 'w) res" where
  "assign_bookingState b s =
     Done () (s\<lparr>bookingState := b\<rparr>) [Assigned BookingState (bookingState s) (email s) b]"

definition modify :: "('w session \<Rightarrow> 'w session) \<Rightarrow> 'w session \<Rightarrow> (unit, 'w) res" where
  "modify f s = Done () (f s) []"

definition discard :: "('a, 'w) res \<Rightarrow> (unit, 'w) res" where
  "discard m = bnd m (\<lambda>_ s. Done () s [])"

definition line :: "string \<Rightarrow> string \<Rightarrow> string" where
  "line speaker said = speaker @ '': '' @ said @ [CHR 0x0A]"

section \<open>The operations outside the process\<close>

text \<open>
  The storage functions are imported from \<^verbatim>\<open>./database-utils.js\<close>, the calendar, the
  telephony client, the date parser and the chat endpoint are remote services or
  libraries: none of them is in the repository's sources, and the handlers take them as
  parameters. Each is a function on the outside world, which may throw (\<open>Inl\<close>).

  \<^item> \<open>chronoParseDate\<close> is \<^verbatim>\<open>chrono.parseDate(userInput)\<close> followed by
    \<^verbatim>\<open>toISOString()\<close>, as in \<^verbatim>\<open>parseUserTime\<close>.
  \<^item> \<open>eventTimes\<close> is \<^verbatim>\<open>new Date(preferredTime)\<close>, the date 30 minutes later and the two
    \<^verbatim>\<open>toISOString()\<close> calls of \<^verbatim>\<open>bookTrainingSession\<close>, which throw a
    \<^verbatim>\<open>RangeError\<close> on an invalid date (\<open>None\<close>).
  \<^item> \<open>fetchSummary\<close> and \<open>fetchUserName\<close> are the two chat requests: \<open>Inr None\<close> is a
    response that is not \<^verbatim>\<open>ok\<close>, \<open>Inr (Some t)\<close> the trimmed text of the first choice.
  \<^item> \<open>searchKnowledge\<close> is the embedding request and the \<^verbatim>\<open>search_documents\<close> call of
    \<^verbatim>\<open>askSupabaseAssistant\<close>: \<open>Inr None\<close> when one of them reports an error or no
    document is found, \<open>Inr (Some t)\<close> the combined answer.
\<close>

record 'w env =
  dbCreateOrGetUser :: "string option \<Rightarrow> 'w \<Rightarrow> (string + user option) \<times> 'w"
  dbUpdateUserName :: "string option \<Rightarrow> string option \<Rightarrow> 'w \<Rightarrow> (string + unit) \<times> 'w"
  dbUpdateUserEmail :: "string option \<Rightarrow> string option \<Rightarrow> 'w \<Rightarrow> (string + unit) \<times> 'w"
  dbCreateConversation ::
    "string option \<Rightarrow> string option \<Rightarrow> 'w \<Rightarrow> (string + conversation option) \<times> 'w"
  dbUpdateConversation ::
    "string option \<Rightarrow> string \<Rightarrow> string option \<Rightarrow> 'w \<Rightarrow> (string + unit) \<times> 'w"
  dbFinalizeConversation ::
    "string option \<Rightarrow> string \<Rightarrow> string \<Rightarrow> 'w \<Rightarrow> (string + unit) \<times> 'w"
  dbGetLastConversation :: "string option \<Rightarrow> 'w \<Rightarrow> (string + conversation option) \<times> 'w"
  dbCreateBooking ::
    "string option \<Rightarrow> string option \<Rightarrow> string option \<Rightarrow> string \<Rightarrow> string option
      \<Rightarrow> 'w \<Rightarrow> (string + bool) \<times> 'w"
  dbUpdateBookingState :: "string option \<Rightarrow> bstate \<Rightarrow> 'w \<Rightarrow> (string + unit) \<times> 'w"
  calendarInsert ::
    "string \<Rightarrow> string \<Rightarrow> string option \<Rightarrow> 'w \<Rightarrow> (string + calendar_response) \<times> 'w"
  chronoParseDate :: "string option \<Rightarrow> 'w \<Rightarrow> (string + string option) \<times> 'w"
  fetchCall :: "string option \<Rightarrow> 'w \<Rightarrow> (string + string option) \<times> 'w"
  fetchSummary :: "string \<Rightarrow> 'w \<Rightarrow> (string + string option) \<times> 'w"
  fetchUserName :: "string \<Rightarrow> 'w \<Rightarrow> (string + string option) \<times> 'w"
  extractEmailFromSummary :: "string \<Rightarrow> 'w \<Rightarrow> (string + string option) \<times> 'w"
  searchKnowledge :: "string option \<Rightarrow> 'w \<Rightarrow> (string + string option) \<times> 'w"
  eventTimes :: "string \<Rightarrow> (string \<times> string) option"

text \<open>One invocation of an outside operation.\<close>

definition invoke :: "call \<Rightarrow> ('w \<Rightarrow> (string + 'a) \<times> 'w) \<Rightarrow> 'w session \<Rightarrow> ('a, 'w) res" where
  "invoke c operation s =
     (case operation (world s) of
        (Inr v, w') \<Rightarrow> Done v (s\<lparr>world := w'\<rparr>) [Invoked c]
      | (Inl e, w') \<Rightarrow> Threw (Rejected (Some e)) (s\<lparr>world := w'\<rparr>) [Invoked c])"

text \<open>
  An outside operation wrapped by \<open>withRetry\<close> with the default options, as all the
  \<^verbatim>\<open>...WithRetry\<close> constants of the source are.
\<close>

fun retry_effect :: "call \<Rightarrow> ('e, 'a) retry_event \<Rightarrow> effect" where
  "retry_effect c (Attempt r) = Invoked c"
| "retry_effect c (ErrorLogged n) = Log ''Operation failed''"
| "retry_effect c (Delay d) = Slept d"

definition invokeWithRetry ::
  "call \<Rightarrow> ('w \<Rightarrow> (string + 'a) \<times> 'w) \<Rightarrow> 'w session \<Rightarrow> ('a, 'w) res" where
  "invokeWithRetry c operation s =
     (case withRetry RETRY_OPTIONS operation (world s) of
        (Inr v, w', evs) \<Rightarrow> Done v (s\<lparr>world := w'\<rparr>) (map (retry_effect c) evs)
      | (Inl lastError, w', evs) \<Rightarrow>
          Threw (Rejected lastError) (s\<lparr>world := w'\<rparr>) (map (retry_effect c) evs))"

definition createOrGetUserWithRetry ::
  "'w env \<Rightarrow> string option \<Rightarrow> 'w session \<Rightarrow> (user option, 'w) res" where
  "createOrGetUserWithRetry env phone =
     invokeWithRetry CreateOrGetUser (dbCreateOrGetUser env phone)"

definition updateUserNameWithRetry ::
  "'w env \<Rightarrow> string option \<Rightarrow> string option \<Rightarrow> 'w session \<Rightarrow> (unit, 'w) res" where
  "updateUserNameWithRetry env phone new_name =
     invokeWithRetry UpdateUserName (dbUpdateUserName env phone new_name)"

definition updateUserEmailWithRetry ::
  "'w env \<Rightarrow> string option \<Rightarrow> string option \<Rightarrow> 'w session \<Rightarrow> (unit, 'w) res" where
  "updateUserEmailWithRetry env phone addr =
     invokeWithRetry UpdateUserEmail (dbUpdateUserEmail env phone addr)"

definition createConversationWithRetry ::
  "'w env \<Rightarrow> string option \<Rightarrow> string option \<Rightarrow> 'w session \<Rightarrow> (conversation option, 'w) res" where
  "createConversationWithRetry env phone sid =
     invokeWithRetry CreateConversation (dbCreateConversation env phone sid)"

definition updateConversationWithRetry ::
  "'w env \<Rightarrow> string option \<Rightarrow> string \<Rightarrow> string option \<Rightarrow> 'w session \<Rightarrow> (unit, 'w) res" where
  "updateConversationWithRetry env cid last_question last_answer =
     invokeWithRetry UpdateConversation (dbUpdateConversation env cid last_question last_answer)"

definition finalizeConversationInDbWithRetry ::
  "'w env \<Rightarrow> string option \<Rightarrow> string \<Rightarrow> string \<Rightarrow> 'w session \<Rightarrow> (unit, 'w) res" where
  "finalizeConversationInDbWithRetry env cid dialogue summary_text =
     invokeWithRetry FinalizeConversationInDb (dbFinalizeConversation env cid dialogue summary_text)"

definition getLastConversationWithRetry ::
  "'w env \<Rightarrow> string option \<Rightarrow> 'w session \<Rightarrow> (conversation option, 'w) res" where
  "getLastConversationWithRetry env phone =
     invokeWithRetry GetLastConversation (dbGetLastConversation env phone)"

definition createBookingWithRetry ::
  "'w env \<Rightarrow> string option \<Rightarrow> string option \<Rightarrow> string option \<Rightarrow> string \<Rightarrow> string option
    \<Rightarrow> 'w session \<Rightarrow> (bool, 'w) res" where
  "createBookingWithRetry env phone cid eventId start addr =
     invokeWithRetry CreateBooking (dbCreateBooking env phone cid eventId start addr)"

definition updateBookingStateWithRetry ::
  "'w env \<Rightarrow> string option \<Rightarrow> bstate \<Rightarrow> 'w session \<Rightarrow> (unit, 'w) res" where
  "updateBookingStateWithRetry env phone b =
     invokeWithRetry (UpdateBookingState b) (dbUpdateBookingState env phone b)"

section \<open>The booking flow\<close>

text \<open>
  Each handler of the source is an \<^verbatim>\<open>async\<close> function; it is modelled as running to its
  end once started, so an \<^verbatim>\<open>await\<close> is the call it waits for. Sending on a socket and
  writing to the console always succeed.
\<close>

definition updateLastConversation ::
  "'w env \<Rightarrow> string option \<Rightarrow> string option \<Rightarrow> string option \<Rightarrow> 'w session \<Rightarrow> (unit, 'w) res" where
  "updateLastConversation env phone question answer s =
     (if \<not> truthy (conversationId s) then emit (Log ''No conversation ID available'') s
      else steps
        [emit (Log ''Updating conversation for''),
         emit (Log ''Question:''),
         emit (Log ''Answer:''),
         (\<lambda>s. updateConversationWithRetry env (conversationId s)
                 (if truthy question then shown question else ''No question'') answer s)] s)"

definition sendSessionUpdate :: "'w session \<Rightarrow> (unit, 'w) res" where
  "sendSessionUpdate s =
     steps [emit (Log ''Sending session update:''), emit (ToModel SessionUpdate)] s"

definition parseUserTime :: "'w env \<Rightarrow> string option \<Rightarrow> 'w session \<Rightarrow> (string option, 'w) res" where
  "parseUserTime env userInput s = invoke ParseDate (chronoParseDate env userInput) s"

definition askForSuitableTime :: "'w env \<Rightarrow> 'w session \<Rightarrow> (unit, 'w) res" where
  "askForSuitableTime env s =
     steps
       [emit (ToModel (ResponseCreate AskSuitableTime)),
        assign_bookingState awaiting_time,
        (\<lambda>s. updateBookingStateWithRetry env (phoneNumber s) awaiting_time s)] s"

definition askNewEmail :: "'w session \<Rightarrow> (unit, 'w) res" where
  "askNewEmail s =
     steps [emit (ToModel (ResponseCreate AskEmail)), assign_bookingState awaiting_email] s"

definition askForEmail :: "'w env \<Rightarrow> 'w session \<Rightarrow> (unit, 'w) res" where
  "askForEmail env s =
     try_catch
       (bnd (createOrGetUserWithRetry env (phoneNumber s) s) (\<lambda>found s.
          (case found of
             None \<Rightarrow> askNewEmail s
           | Some u \<Rightarrow>
               (case user_email u of
                  None \<Rightarrow> askNewEmail s
                | Some stored \<Rightarrow>
                    if stored \<noteq> [] then
                      steps
                        [emit (ToModel (ResponseCreate (OfferStoredEmail stored))),
                         assign_email (Some stored),
                         assign_bookingState confirm_existing_email] s
                    else askNewEmail s))))
       (\<lambda>error s. bnd (emit (Log ''Error in askForEmail:'') s) (\<lambda>_. askNewEmail))"

definition confirmEmail :: "'w env \<Rightarrow> string \<Rightarrow> 'w session \<Rightarrow> (unit, 'w) res" where
  "confirmEmail env addr s =
     steps
       [emit (ToModel (ResponseCreate (ConfirmEmailSpelling addr))),
        assign_bookingState confirm_email,
        (\<lambda>s. updateBookingStateWithRetry env (phoneNumber s) confirm_email s)] s"

definition bookingNotCreated :: "'w session \<Rightarrow> (bool, 'w) res" where
  "bookingNotCreated s = bnd (emit (Log ''Failed to create event:'') s) (\<lambda>_ s. Done False s [])"

definition bookTrainingSession ::
  "'w env \<Rightarrow> string option \<Rightarrow> string option \<Rightarrow> 'w session \<Rightarrow> (bool, 'w) res" where
  "bookTrainingSession env preferredTime addr s =
     try_catch
       (case preferredTime of
          None \<Rightarrow> bnd (emit (Log ''Preferred time is not set.'') s) (\<lambda>_ s. Done False s [])
        | Some t \<Rightarrow>
            if t = [] then bnd (emit (Log ''Preferred time is not set.'') s) (\<lambda>_ s. Done False s [])
            else
              (case eventTimes env t of
                 None \<Rightarrow> Threw RangeError s []
               | Some (startTime, endTime) \<Rightarrow>
                   bnd (invoke CalendarInsert (calendarInsert env startTime endTime addr) s)
                     (\<lambda>response s.
                        if status response = 200 \<or> status response = 201 then
                          bnd (emit (Log ''Event created:'') s) (\<lambda>_ s.
                          bnd (createBookingWithRetry env (phoneNumber s) (conversationId s)
                                 (event_id response) startTime addr s) (\<lambda>booking s.
                            if booking then
                              bnd (updateUserEmailWithRetry env (phoneNumber s) addr s)
                                (\<lambda>_ s. Done True s [])
                            else bookingNotCreated s))
                        else bookingNotCreated s)))
       (\<lambda>error s. bnd (emit (Log ''Error booking training session:'') s) (\<lambda>_ s. Done False s []))"

definition afterBooking :: "'w env \<Rightarrow> prompt \<Rightarrow> 'w session \<Rightarrow> (unit, 'w) res" where
  "afterBooking env said s =
     steps
       [emit (ToModel (ResponseCreate said)),
        assign_bookingState idle,
        (\<lambda>s. updateBookingStateWithRetry env (phoneNumber s) idle s)] s"

definition handleEmailConfirmation ::
  "'w env \<Rightarrow> string \<Rightarrow> string option \<Rightarrow> 'w session \<Rightarrow> (unit, 'w) res" where
  "handleEmailConfirmation env confirmation addr s =
     (if confirmation = ''yes'' then
        bnd (bookTrainingSession env (preferred_time s) addr s) (\<lambda>bookingSuccess s.
          if bookingSuccess then afterBooking env BookingSucceeded s
          else afterBooking env BookingFailed s)
      else askForEmail env s)"

definition handleExistingEmailConfirmation ::
  "'w env \<Rightarrow> string \<Rightarrow> 'w session \<Rightarrow> (unit, 'w) res" where
  "handleExistingEmailConfirmation env confirmation s =
     (if includes_str confirmation ''yes'' then
        bnd (bookTrainingSession env (preferred_time s) (email s) s) (\<lambda>bookingSuccess s.
          if bookingSuccess then afterBooking env BookingSucceededStored s
          else afterBooking env BookingFailed s)
      else
        steps
          [emit (ToModel (ResponseCreate AskNewEmail)),
           assign_bookingState awaiting_email,
           (\<lambda>s. updateBookingStateWithRetry env (phoneNumber s) awaiting_email s)] s)"

definition sendUserMessage :: "prompt \<Rightarrow> 'w session \<Rightarrow> (unit, 'w) res" where
  "sendUserMessage said s =
     steps [emit (Log ''Sending AI prompt:''), emit (ToModel (ResponseCreate said))] s"

definition greet :: "user \<Rightarrow> conversation option \<Rightarrow> 'w session \<Rightarrow> (unit, 'w) res" where
  "greet u lastConversation s =
     (case user_name u of
        None \<Rightarrow> steps [emit (Log ''Generated new user prompt:''), sendUserMessage NewUserPrompt] s
      | Some known \<Rightarrow>
          if known \<noteq> [] then
            steps
              [emit (Log ''Generated returning user prompt:''),
               sendUserMessage
                 (ReturningUserPrompt known
                    (case lastConversation of
                       None \<Rightarrow> None
                     | Some c \<Rightarrow> if truthy (summary c) then summary c else None))] s
          else steps [emit (Log ''Generated new user prompt:''), sendUserMessage NewUserPrompt] s)"

definition handleIncomingCall :: "'w env \<Rightarrow> string option \<Rightarrow> 'w session \<Rightarrow> (unit, 'w) res" where
  "handleIncomingCall env sid s =
     (if \<not> truthy sid then emit (Log ''Call SID is undefined'') s
      else
        try_catch
          (bnd (invoke FetchCall (fetchCall env sid) s) (\<lambda>phone s.
           bnd (modify (\<lambda>s. s\<lparr>phoneNumber := phone\<rparr>) s) (\<lambda>_ s.
           bnd (createOrGetUserWithRetry env phone s) (\<lambda>found s.
             (case found of
                None \<Rightarrow> Threw (Failure ''Failed to create or get user'') s []
              | Some u \<Rightarrow>
                  bnd (createConversationWithRetry env phone sid s) (\<lambda>created s.
                    (case created of
                       None \<Rightarrow> Threw (Failure ''Failed to create conversation'') s []
                     | Some c \<Rightarrow>
                         bnd (modify (\<lambda>s. s\<lparr>conversationId := conversation_id c\<rparr>) s) (\<lambda>_ s.
                         bnd (emit (Log ''Handling incoming call from'') s) (\<lambda>_ s.
                         bnd (getLastConversationWithRetry env phone s) (\<lambda>lastConversation s.
                           steps
                             [emit (Log ''Last conversation data:''),
                              emit (Log ''User details:''),
                              greet u lastConversation] s))))))))))
          (\<lambda>error s. emit (Log ''Error handling incoming call:'') s))"

section \<open>Finalization (\<^verbatim>\<open>finalizeConversation\<close>, index.js lines 1130-1184)\<close>

definition extractUserNameFromSummary ::
  "'w env \<Rightarrow> string \<Rightarrow> 'w session \<Rightarrow> (string option, 'w) res" where
  "extractUserNameFromSummary env summary_text s =
     try_catch
       (bnd (invoke ExtractUserName (fetchUserName env summary_text) s) (\<lambda>answer s.
          (case answer of
             None \<Rightarrow> bnd (emit (Log ''Error extracting user name:'') s) (\<lambda>_ s. Done None s [])
           | Some extractedName \<Rightarrow>
               if toLowerCase extractedName = ''name not found'' then Done None s []
               else bnd (emit (Log ''Extracted user name:'') s)
                      (\<lambda>_ s. Done (Some extractedName) s []))))
       (\<lambda>error s. bnd (emit (Log ''Error in extractUserNameFromSummary:'') s)
                     (\<lambda>_ s. Done None s []))"

definition finalizeConversation :: "'w env \<Rightarrow> 'w session \<Rightarrow> (unit, 'w) res" where
  "finalizeConversation env s =
     (if \<not> truthy (conversationId s) then
        emit (Log ''No conversation ID, skipping finalization'') s
      else
        bnd (emit (Log ''Finalizing conversation:'') s) (\<lambda>_ s.
          try_catch
            (bnd (invoke FetchSummary (fetchSummary env (fullDialogue s)) s) (\<lambda>answer s.
               (case answer of
                  None \<Rightarrow> Threw (Failure ''Error generating summary'') s []
                | Some summary_text \<Rightarrow>
                    bnd (extractUserNameFromSummary env summary_text s) (\<lambda>extractedName s.
                    bnd (if truthy extractedName
                         then updateUserNameWithRetry env (phoneNumber s) extractedName s
                         else Done () s []) (\<lambda>_ s.
                    bnd (invoke ExtractEmail (extractEmailFromSummary env summary_text) s)
                      (\<lambda>extractedEmail s.
                    bnd (if truthy extractedEmail
                         then updateUserEmailWithRetry env (phoneNumber s) extractedEmail s
                         else Done () s []) (\<lambda>_ s.
                    finalizeConversationInDbWithRetry env (conversationId s) (fullDialogue s)
                      summary_text s)))))))
            (\<lambda>error s. emit (Log ''Error finalizing conversation:'') s)))"

section \<open>The knowledge lookup (\<^verbatim>\<open>askSupabaseAssistant\<close>, index.js lines 668-717)\<close>

definition askSupabaseAssistant ::
  "'w env \<Rightarrow> string option \<Rightarrow> 'w session \<Rightarrow> (string option, 'w) res" where
  "askSupabaseAssistant env question s =
     bnd (emit (Log ''Querying knowledge base for:'') s) (\<lambda>_ s.
       try_catch
         (bnd (invoke AskAssistant (searchKnowledge env question) s) (\<lambda>answer s.
            (case answer of
               None \<Rightarrow> bnd (emit (Log ''No answer from the knowledge base'') s)
                         (\<lambda>_ s. Done None s [])
             | Some combinedAnswer \<Rightarrow>
                 bnd (emit (Log ''Knowledge base answers found:'') s)
                   (\<lambda>_ s. Done (Some combinedAnswer) s []))))
         (\<lambda>error s. bnd (emit (Log ''Error in askSupabaseAssistant:'') s)
                       (\<lambda>_ s. Done None s [])))"

section \<open>Messages from the model (\<^verbatim>\<open>handleOpenAiMessage\<close>, index.js lines 340-659)\<close>

text \<open>
  \<^verbatim>\<open>JSON.parse\<close> throws (\<open>Unparseable\<close>), yields \<^verbatim>\<open>null\<close> (\<open>ParsedNull\<close>) or yields a
  value, of which the handler reads the fields below. A field is \<open>None\<close> when it is
  missing, and \<open>ev_type\<close> and \<open>ev_name\<close> also when they are no strings; the other fields
  are strings when present. \<open>ev_arguments\<close> is what \<^verbatim>\<open>JSON.parse(response.arguments)\<close>
  gives: it throws or yields \<^verbatim>\<open>null\<close> (\<open>ArgsUnparseable\<close>), or yields an object with the
  three fields the handler reads.
\<close>

datatype tool_args =
    ArgsUnparseable
  | Args (arg_question: "string option") (arg_preferred_time: "string option")
      (arg_email: "string option")

record model_event =
  ev_type :: "string option"
  ev_name :: "string option"
  ev_arguments :: tool_args
  ev_delta :: "string option"
  ev_content :: "string option"
  ev_transcript :: "string option"

datatype 'a parsed = Unparseable | ParsedNull | Parsed 'a

definition LOG_EVENT_TYPES :: "string list" where
  "LOG_EVENT_TYPES =
     [''response.content.done'', ''response.function_call_arguments.done'',
      ''input_audio_buffer.committed'', ''input_audio_buffer.speech_stopped'',
      ''input_audio_buffer.speech_started'', ''session.created'',
      ''response.audio_transcript.done'']"


definition checkingMessage :: string where
  "checkingMessage = ''Give me a second, I'' @ [CHR 0x27] @ ''m checking my knowledge.''"

definition fallbackMessage :: string where
  "fallbackMessage =
     ''I'' @ [CHR 0x27] @ ''m sorry, I couldn'' @ [CHR 0x27]
     @ ''t access the knowledge base at this time.''"

definition on_session_created :: "model_event \<Rightarrow> 'w session \<Rightarrow> (unit, 'w) res" where
  "on_session_created response s =
     (if ev_type response = Some ''session.created''
      then steps [emit (Log ''Session created:''), sendSessionUpdate] s
      else Done () s [])"

definition on_session_updated :: "'w env \<Rightarrow> model_event \<Rightarrow> 'w session \<Rightarrow> (unit, 'w) res" where
  "on_session_updated env response s =
     (if ev_type response = Some ''session.updated'' then
        steps
          [emit (Log ''Session updated successfully:''),
           modify (\<lambda>s. s\<lparr>sessionReady := True\<rparr>),
           (\<lambda>s. if truthy (callSid s) then handleIncomingCall env (callSid s) s
                 else emit (Log ''Call SID not set, waiting for incoming call'') s)] s
      else Done () s [])"

definition on_speech_started :: "model_event \<Rightarrow> 'w session \<Rightarrow> (unit, 'w) res" where
  "on_speech_started response s =
     (if ev_type response = Some ''input_audio_buffer.speech_started'' then
        steps
          [emit (Log ''Speech Start:''),
           (\<lambda>s. emit (ToTwilio (Clear (streamSid s))) s),
           emit (Log ''Cancelling AI speech from the server''),
           emit (ToModel ResponseCancel)] s
      else Done () s [])"

definition log_event_type :: "model_event \<Rightarrow> 'w session \<Rightarrow> (unit, 'w) res" where
  "log_event_type response s =
     (case ev_type response of
        None \<Rightarrow> Done () s []
      | Some t \<Rightarrow> if t \<in> set LOG_EVENT_TYPES then emit (Log ''Received event:'') s
                  else Done () s [])"

definition access_knowledge_base :: "'w env \<Rightarrow> model_event \<Rightarrow> 'w session \<Rightarrow> (unit, 'w) res" where
  "access_knowledge_base env response s =
     (case ev_arguments response of
        ArgsUnparseable \<Rightarrow> Threw SyntaxError s []
      | Args question wanted addr \<Rightarrow>
          steps
            [emit (Log ''AI is accessing knowledge base for question:''),
             emit (ToModel (AssistantItem checkingMessage)),
             modify (\<lambda>s. s\<lparr>fullDialogue := fullDialogue s @ line ''AI'' checkingMessage\<rparr>),
             (\<lambda>s. bnd (askSupabaseAssistant env question s) (\<lambda>answer s.
                (case answer of
                   None \<Rightarrow>
                     steps
                       [emit (Log ''No answer from knowledge base, AI will use its general knowledge.''),
                        emit (ToModel (AssistantItem fallbackMessage)),
                        modify (\<lambda>s. s\<lparr>fullDialogue :=
                                  fullDialogue s @ line ''AI'' fallbackMessage\<rparr>)] s
                 | Some found \<Rightarrow>
                     if found \<noteq> [] then
                       steps
                         [emit (Log ''Sending knowledge base answer to OpenAI:''),
                          emit (ToModel (FunctionCallOutput found)),
                          emit (ToModel (ResponseCreate (SummarizeKnowledge found))),
                          emit (Log ''Knowledge base answer provided to OpenAI''),
                          modify (\<lambda>s. s\<lparr>sendingFunctionCallOutput := True\<rparr>)] s
                     else
                       steps
                         [emit (Log ''No answer from knowledge base, AI will use its general knowledge.''),
                          emit (ToModel (AssistantItem fallbackMessage)),
                          modify (\<lambda>s. s\<lparr>fullDialogue :=
                                    fullDialogue s @ line ''AI'' fallbackMessage\<rparr>)] s)))] s)"

definition schedule_training_session ::
  "'w env \<Rightarrow> model_event \<Rightarrow> 'w session \<Rightarrow> (unit, 'w) res" where
  "schedule_training_session env response s =
     (case ev_arguments response of
        ArgsUnparseable \<Rightarrow> Threw SyntaxError s []
      | Args question preferredTime addr \<Rightarrow>
          bnd (emit (Log ''Scheduling training session for:'') s) (\<lambda>_ s.
          bnd (bookTrainingSession env preferredTime addr s) (\<lambda>bookingSuccess s.
            if bookingSuccess then afterBooking env BookingSucceeded s
            else afterBooking env BookingFailed s)))"

definition on_function_call :: "'w env \<Rightarrow> model_event \<Rightarrow> 'w session \<Rightarrow> (unit, 'w) res" where
  "on_function_call env response s =
     (if ev_type response = Some ''response.function_call_arguments.done'' then
        steps
          [emit (Log ''Function called successfully:''),
           (\<lambda>s. if ev_name response = Some ''access_knowledge_base''
                 then access_knowledge_base env response s else Done () s []),
           (\<lambda>s. if ev_name response = Some ''schedule_training_session''
                 then schedule_training_session env response s else Done () s [])] s
      else Done () s [])"

definition on_audio_delta :: "model_event \<Rightarrow> 'w session \<Rightarrow> (unit, 'w) res" where
  "on_audio_delta response s =
     (if ev_type response = Some ''response.audio.delta'' \<and> truthy (ev_delta response)
      then emit (ToTwilio (Media (streamSid s) (shown (ev_delta response)))) s
      else Done () s [])"

text \<open>
  The two places that read a time in \<^verbatim>\<open>awaiting_time\<close> (lines 534-553 and 596-615)
  differ only in the console output after the prompt, which is \<open>logged\<close>.
\<close>

definition take_time :: "'w env \<Rightarrow> string option \<Rightarrow> string list \<Rightarrow> 'w session \<Rightarrow> (unit, 'w) res" where
  "take_time env said logged s =
     bnd (parseUserTime env said s) (\<lambda>parsedTime s.
       if truthy parsedTime then
         steps
           [assign_preferred_time parsedTime,
            (\<lambda>s. updateBookingStateWithRetry env (phoneNumber s) awaiting_email s),
            askForEmail env] s
       else Done () s (ToModel (ResponseCreate TimeNotUnderstood) # map Log logged))"

definition mentions_booking :: "string \<Rightarrow> bool" where
  "mentions_booking content \<longleftrightarrow>
     includes_str (toLowerCase content) ''training session''
     \<or> includes_str (toLowerCase content) ''book a training''
     \<or> includes_str (toLowerCase content) ''schedule a training''"

definition on_content_done :: "'w env \<Rightarrow> model_event \<Rightarrow> 'w session \<Rightarrow> (unit, 'w) res" where
  "on_content_done env response s =
     (if ev_type response = Some ''response.content.done'' then
        if \<not> sendingFunctionCallOutput s then
          steps
            [emit (Log ''AI final response:''),
             modify (\<lambda>s. s\<lparr>fullDialogue :=
                       fullDialogue s @ line ''AI'' (shown (ev_content response))\<rparr>),
             (\<lambda>s. updateLastConversation env (phoneNumber s) (lastUserMessage s)
                     (ev_content response) s),
             (\<lambda>s. case bookingState s of
                     idle \<Rightarrow>
                       (case ev_content response of
                          None \<Rightarrow> Threw TypeError s []
                        | Some content \<Rightarrow>
                            if mentions_booking content then askForSuitableTime env s
                            else Done () s [])
                   | awaiting_time \<Rightarrow> take_time env (ev_content response) [] s
                   | confirm_email \<Rightarrow>
                       (case ev_content response of
                          None \<Rightarrow> Threw TypeError s []
                        | Some content \<Rightarrow>
                            handleEmailConfirmation env (toLowerCase (trim content)) (email s) s)
                   | awaiting_email \<Rightarrow> Done () s []
                   | confirm_existing_email \<Rightarrow> Done () s [])] s
        else
          steps
            [emit (Log ''Skipping appending AI function call output to fullDialogue''),
             modify (\<lambda>s. s\<lparr>sendingFunctionCallOutput := False\<rparr>)] s
      else Done () s [])"

definition on_audio_transcript_done ::
  "'w env \<Rightarrow> model_event \<Rightarrow> 'w session \<Rightarrow> (unit, 'w) res" where
  "on_audio_transcript_done env response s =
     (if ev_type response = Some ''response.audio_transcript.done'' then
        steps
          [emit (Log ''AI transcription completed:''),
           modify (\<lambda>s. s\<lparr>fullDialogue :=
                     fullDialogue s @ line ''AI'' (shown (ev_transcript response))\<rparr>),
           emit (Log ''AI message from transcription:''),
           (\<lambda>s. updateLastConversation env (phoneNumber s) (lastUserMessage s)
                   (ev_transcript response) s)] s
      else Done () s [])"

definition append_user_message :: "string option \<Rightarrow> 'w session \<Rightarrow> (unit, 'w) res" where
  "append_user_message transcribedText s =
     (case transcribedText of
        None \<Rightarrow> emit (Log ''Received empty or invalid User message. Skipping append.'') s
      | Some t \<Rightarrow>
          if t \<noteq> [] \<and> trim t \<noteq> [] then
            steps
              [emit (Log ''Appending User message:''),
               modify (\<lambda>s. s\<lparr>fullDialogue := fullDialogue s @ line ''User'' (sanitizeInput t),
                              lastUserMessage := Some (sanitizeInput t)\<rparr>)] s
          else emit (Log ''Received empty or invalid User message. Skipping append.'') s)"

definition take_email :: "'w env \<Rightarrow> string \<Rightarrow> 'w session \<Rightarrow> (unit, 'w) res" where
  "take_email env transcribedText s =
     (if validateEmail (reconstructEmail transcribedText) then
        steps
          [assign_email (Some (reconstructEmail transcribedText)),
           (\<lambda>s. updateBookingStateWithRetry env (phoneNumber s) confirm_email s),
           confirmEmail env (reconstructEmail transcribedText)] s
      else
        steps
          [emit (ToModel (ResponseCreate EmailNotValid)),
           emit (Log ''Appended AI prompt for email re-entry to fullDialogue:'')] s)"

definition on_user_transcript :: "'w env \<Rightarrow> model_event \<Rightarrow> 'w session \<Rightarrow> (unit, 'w) res" where
  "on_user_transcript env response s =
     (if ev_type response = Some ''conversation.item.input_audio_transcription.completed'' then
        steps
          [emit (Log ''Transcription completed:''),
           append_user_message (ev_transcript response),
           (\<lambda>s. case bookingState s of
                   awaiting_time \<Rightarrow>
                     take_time env (ev_transcript response)
                       [''Appended AI prompt for time clarification to fullDialogue:''] s
                 | awaiting_email \<Rightarrow>
                     (case ev_transcript response of
                        None \<Rightarrow> Threw TypeError s []
                      | Some t \<Rightarrow> take_email env t s)
                 | confirm_email \<Rightarrow>
                     (case ev_transcript response of
                        None \<Rightarrow> Threw TypeError s []
                      | Some t \<Rightarrow> handleEmailConfirmation env (toLowerCase (trim t)) (email s) s)
                 | confirm_existing_email \<Rightarrow>
                     (case ev_transcript response of
                        None \<Rightarrow> Threw TypeError s []
                      | Some t \<Rightarrow> handleExistingEmailConfirmation env (toLowerCase (trim t)) s)
                 | idle \<Rightarrow> Done () s []),
           (\<lambda>s. updateLastConversation env (phoneNumber s) (lastUserMessage s) None s)] s
      else Done () s [])"

definition handleOpenAiMessage ::
  "'w env \<Rightarrow> model_event parsed \<Rightarrow> 'w session \<Rightarrow> (unit, 'w) res" where
  "handleOpenAiMessage env data s =
     try_catch
       (case data of
          Unparseable \<Rightarrow> Threw SyntaxError s []
        | ParsedNull \<Rightarrow> Threw TypeError s []
        | Parsed response \<Rightarrow>
            steps
              [on_session_created response,
               on_session_updated env response,
               on_speech_started response,
               log_event_type response,
               on_function_call env response,
               on_audio_delta response,
               on_content_done env response,
               on_audio_transcript_done env response,
               on_user_transcript env response] s)
       (\<lambda>error s. emit (Log ''Error processing OpenAI message:'') s)"

section \<open>Messages from the telephony side (\<^verbatim>\<open>handleTwilioMessage\<close>, index.js lines 720-752)\<close>

text \<open>
  Of a parsed telephony message the handler reads \<^verbatim>\<open>event\<close>, \<^verbatim>\<open>media.payload\<close> and
  \<^verbatim>\<open>start.streamSid\<close>, \<^verbatim>\<open>start.callSid\<close>; \<open>t_media\<close> and \<open>t_start\<close> are \<open>None\<close> when the
  object \<^verbatim>\<open>media\<close> or \<^verbatim>\<open>start\<close> is missing. \<^verbatim>\<open>finalizeConversation\<close> is started without
  \<^verbatim>\<open>await\<close> on \<^verbatim>\<open>stop\<close>; it is run here at that point.
\<close>

record twilio_event =
  t_event :: "string option"
  t_media :: "string option option"
  t_start :: "(string option \<times> string option) option"

definition handleTwilioMessage ::
  "'w env \<Rightarrow> twilio_event parsed \<Rightarrow> 'w session \<Rightarrow> (unit, 'w) res" where
  "handleTwilioMessage env message s =
     try_catch
       (case message of
          Unparseable \<Rightarrow> Threw SyntaxError s []
        | ParsedNull \<Rightarrow> Threw TypeError s []
        | Parsed data \<Rightarrow>
            if t_event data = Some ''media'' then
              (if readyStateOpen s then
                 (case t_media data of
                    None \<Rightarrow> Threw TypeError s []
                  | Some payload \<Rightarrow> emit (ToModel (AudioAppend payload)) s)
               else Done () s [])
            else if t_event data = Some ''start'' then
              (case t_start data of
                 None \<Rightarrow> Threw TypeError s []
               | Some (streamId, callId) \<Rightarrow>
                   steps
                     [modify (\<lambda>s. s\<lparr>streamSid := streamId\<rparr>),
                      modify (\<lambda>s. s\<lparr>callSid := callId\<rparr>),
                      emit (Log ''Incoming stream started:''),
                      emit (Log ''Call SID:'')] s)
            else if t_event data = Some ''stop'' then
              steps [emit (Log ''Call ended''), finalizeConversation env] s
            else emit (Log ''Received non-media event:'') s)
       (\<lambda>error s. emit (Log ''Error parsing Twilio message:'') s)"

section \<open>One call: the events of the two sockets (index.js lines 126-161 and 204-257)\<close>

definition initializeOpenAiWebSocket :: "'w \<Rightarrow> 'w session" where
  "initializeOpenAiWebSocket w =
     \<lparr>fullDialogue = [], awaitingName = True, phoneNumber = None, lastUserMessage = None,
      conversationId = None, sessionReady = False, sendingFunctionCallOutput = False,
      bookingState = idle, preferred_time = None, email = None, callSid = None,
      streamSid = None, readyStateOpen = False, world = w\<rparr>"

text \<open>
  The events that the handlers registered on the two sockets react to. On \<open>ModelOpen\<close> the
  source starts a timer of 250 ms that calls \<^verbatim>\<open>sendSessionUpdate\<close>; the wait and the call
  are run at that point. On \<open>ModelClose\<close> the listener of \<^verbatim>\<open>setupWebSocketErrorHandling\<close>
  runs first, then the one of the media-stream route. On \<open>ModelError\<close> the first listener
  calls \<^verbatim>\<open>updateConversation\<close>, which no source file defines, inside a \<^verbatim>\<open>try\<close>. On
  \<open>TwilioClose\<close> the model socket is closed when it is open, and its \<^verbatim>\<open>close\<close> listeners
  run at that point.
\<close>

datatype conn_event =
    ModelOpen
  | ModelMessage "model_event parsed"
  | ModelClose
  | ModelError
  | TwilioMessage "twilio_event parsed"
  | TwilioClose

definition on_model_close :: "'w env \<Rightarrow> 'w session \<Rightarrow> (unit, 'w) res" where
  "on_model_close env s =
     steps
       [modify (\<lambda>s. s\<lparr>readyStateOpen := False\<rparr>),
        (\<lambda>s. try_catch
                (if truthy (conversationId s) then finalizeConversation env s else Done () s [])
                (\<lambda>error s. emit (Log ''Error handling WebSocket close:'') s)),
        emit (Log ''Disconnected from OpenAI Realtime API'')] s"

definition on_model_error :: "'w session \<Rightarrow> (unit, 'w) res" where
  "on_model_error s =
     steps
       [emit (Log ''WebSocket error:''),
        (\<lambda>s. try_catch
                (if truthy (conversationId s) then Threw ReferenceError s [] else Done () s [])
                (\<lambda>error s. emit (Log ''Error handling WebSocket error:'') s)),
        emit (Log ''OpenAI WebSocket error:'')] s"

definition handle :: "'w env \<Rightarrow> conn_event \<Rightarrow> 'w session \<Rightarrow> (unit, 'w) res" where
  "handle env ev s =
     (case ev of
        ModelOpen \<Rightarrow>
          steps
            [modify (\<lambda>s. s\<lparr>readyStateOpen := True\<rparr>),
             emit (Log ''Connected to OpenAI Realtime API''),
             emit (Slept 250),
             sendSessionUpdate] s
      | ModelMessage data \<Rightarrow> handleOpenAiMessage env data s
      | ModelClose \<Rightarrow> on_model_close env s
      | ModelError \<Rightarrow> on_model_error s
      | TwilioMessage message \<Rightarrow> handleTwilioMessage env message s
      | TwilioClose \<Rightarrow>
          steps
            [(\<lambda>s. if readyStateOpen s then on_model_close env s else Done () s []),
             emit (Log ''Client disconnected.'')] s)"

text \<open>The events of one call, handled in the order of their arrival.\<close>

fun run :: "'w env \<Rightarrow> conn_event list \<Rightarrow> 'w session \<Rightarrow> 'w session \<times> effect list" where
  "run env [] s = (s, [])"
| "run env (ev # evs) s =
     (case run env evs (state_of (handle env ev s)) of
        (s', later) \<Rightarrow> (s', effects_of (handle env ev s) @ later))"

section \<open>Observations on handlers\<close>


definition same_booking :: "'w session \<Rightarrow> 'w session \<Rightarrow> bool" where
  "same_booking s s' \<longleftrightarrow>
     bookingState s' = bookingState s \<and> preferred_time s' = preferred_time s \<and> email s' = email s"

definition order_like :: "('w session \<Rightarrow> 'w session \<Rightarrow> bool) \<Rightarrow> bool" where
  "order_like R \<longleftrightarrow>
     (\<forall>s. R s s) \<and> (\<forall>s s1 s2. R s s1 \<longrightarrow> R s1 s2 \<longrightarrow> R s s2) \<and> (\<forall>s w. R s (s\<lparr>world := w\<rparr>))"

definition leaves ::
  "('w session \<Rightarrow> 'w session \<Rightarrow> bool) \<Rightarrow> 'w session \<Rightarrow> ('a, 'w) res \<Rightarrow> bool" where
  "leaves R s m \<longleftrightarrow> R s (state_of m)"

text \<open>
  \<open>all_effects p m\<close>: every effect of \<open>m\<close> satisfies \<open>p\<close>. \<open>assigns f m\<close>: \<open>m\<close> assigns the
  booking field \<open>f\<close>. A \<open>plain\<close> effect is neither an assignment to a booking field nor the
  configuration message.
\<close>

definition all_effects :: "(effect \<Rightarrow> bool) \<Rightarrow> ('a, 'w) res \<Rightarrow> bool" where
  "all_effects p m \<longleftrightarrow> (\<forall>e \<in> set (effects_of m). p e)"

definition assigns :: "field \<Rightarrow> ('a, 'w) res \<Rightarrow> bool" where
  "assigns f m \<longleftrightarrow> (\<exists>b em b'. Assigned f b em b' \<in> set (effects_of m))"

fun plain :: "effect \<Rightarrow> bool" where
  "plain (Assigned f b em b') = False"
| "plain (ToModel m) = (m \<noteq> SessionUpdate)"
| "plain (ToTwilio m) = True"
| "plain (Log l) = True"
| "plain (Invoked c) = True"
| "plain (Slept d) = True"

text \<open>
  \<open>tracked\<close> is what is shown of every effect of a handler other than the sending of the
  configuration: the preferred time is assigned in \<open>awaiting_time\<close>, the address is
  assigned outside \<open>idle\<close> and is not empty, and \<open>confirm_email\<close> is entered with a
  non-empty address in the session. \<open>state_only\<close> effects assign no booking field but the
  state. \<open>configures\<close> tells the events on which the configuration is sent.
\<close>

fun tracked :: "effect \<Rightarrow> bool" where
  "tracked (Assigned Preferred_time b em b') = (b = awaiting_time)"
| "tracked (Assigned Email b em b') = (b \<noteq> idle \<and> truthy em)"
| "tracked (Assigned BookingState b em b') = (b' = confirm_email \<longrightarrow> truthy em)"
| "tracked (ToModel m) = (m \<noteq> SessionUpdate)"
| "tracked (ToTwilio m) = True"
| "tracked (Log l) = True"
| "tracked (Invoked c) = True"
| "tracked (Slept d) = True"

fun state_only :: "effect \<Rightarrow> bool" where
  "state_only (Assigned f b em b') = (f = BookingState)"
| "state_only (ToModel m) = True"
| "state_only (ToTwilio m) = True"
| "state_only (Log l) = True"
| "state_only (Invoked c) = True"
| "state_only (Slept d) = True"

fun configures :: "conn_event \<Rightarrow> bool" where
  "configures ModelOpen = True"
| "configures (ModelMessage (Parsed r)) = (ev_type r = Some ''session.created'')"
| "configures (ModelMessage Unparseable) = False"
| "configures (ModelMessage ParsedNull) = False"
| "configures ModelClose = False"
| "configures ModelError = False"
| "configures (TwilioMessage m) = False"
| "configures TwilioClose = False"


definition CalendarInserts :: "effect list \<Rightarrow> nat" where
  "CalendarInserts evs = length (filter (\<lambda>e. e = Invoked CalendarInsert) evs)"


fun not_calendar :: "effect \<Rightarrow> bool" where
  "not_calendar (Invoked c) = (c \<noteq> CalendarInsert)"
| "not_calendar (ToModel m) = True"
| "not_calendar (ToTwilio m) = True"
| "not_calendar (Log l) = True"
| "not_calendar (Slept d) = True"
| "not_calendar (Assigned f b em b') = True"


text \<open>
  \<open>journey s m\<close>: if \<open>m\<close>, started in the session \<open>s\<close>, assigns \<^verbatim>\<open>preferred_time\<close>, then \<open>s\<close>
  is in \<open>awaiting_time\<close> and \<open>m\<close> ends in \<open>awaiting_email\<close> or \<open>confirm_existing_email\<close>, or
  throws in \<open>awaiting_time\<close>; if \<open>m\<close> assigns \<^verbatim>\<open>email\<close>, then it ends in \<open>confirm_email\<close> or
  \<open>confirm_existing_email\<close>, or throws in \<open>awaiting_email\<close>.
\<close>

definition journey :: "'w session \<Rightarrow> ('a, 'w) res \<Rightarrow> bool" where
  "journey s m \<longleftrightarrow>
     (assigns Preferred_time m \<longrightarrow>
        bookingState s = awaiting_time
        \<and> (bookingState (state_of m) = awaiting_email
           \<or> bookingState (state_of m) = confirm_existing_email
           \<or> (bookingState (state_of m) = awaiting_time \<and> value_of m = None)))
     \<and> (assigns Email m \<longrightarrow>
          bookingState (state_of m) = confirm_email
          \<or> bookingState (state_of m) = confirm_existing_email
          \<or> (bookingState (state_of m) = awaiting_email \<and> value_of m = None))"

section \<open>A sample outside world\<close>

text \<open>
  An outside world without state in which every operation succeeds: the caller is known
  as Ash with the stored address \<open>ash@example.com\<close>, every text parses to the same time,
  and the calendar answers 200. It is used, with single operations replaced, where a
  property is evaluated on a concrete call.
\<close>

definition sample_time :: string where
  "sample_time = ''2026-11-10T15:00:00.000Z''"

definition sample_env :: "unit env" where
  "sample_env =
     \<lparr>dbCreateOrGetUser =
        (\<lambda>phone w. (Inr (Some \<lparr>user_name = Some ''Ash'', user_email = Some ''ash@example.com''\<rparr>), w)),
      dbUpdateUserName = (\<lambda>phone new_name w. (Inr (), w)),
      dbUpdateUserEmail = (\<lambda>phone addr w. (Inr (), w)),
      dbCreateConversation =
        (\<lambda>phone sid w. (Inr (Some \<lparr>conversation_id = sid, summary = None\<rparr>), w)),
      dbUpdateConversation = (\<lambda>cid question answer w. (Inr (), w)),
      dbFinalizeConversation = (\<lambda>cid dialogue summary_text w. (Inr (), w)),
      dbGetLastConversation = (\<lambda>phone w. (Inr None, w)),
      dbCreateBooking = (\<lambda>phone cid eventId start addr w. (Inr True, w)),
      dbUpdateBookingState = (\<lambda>phone b w. (Inr (), w)),
      calendarInsert =
        (\<lambda>start finish addr w. (Inr \<lparr>status = 200, event_id = Some ''evt1''\<rparr>, w)),
      chronoParseDate = (\<lambda>said w. (Inr (Some sample_time), w)),
      fetchCall = (\<lambda>sid w. (Inr (Some ''+15550100''), w)),
      fetchSummary = (\<lambda>dialogue w. (Inr (Some ''Talked about Pikachu.''), w)),
      fetchUserName = (\<lambda>summary_text w. (Inr (Some ''Name not found''), w)),
      extractEmailFromSummary = (\<lambda>summary_text w. (Inr None, w)),
      searchKnowledge = (\<lambda>question w. (Inr None, w)),
      eventTimes = (\<lambda>t. Some (t, ''2026-11-10T15:30:00.000Z''))\<rparr>"



definition event_of_type :: "string \<Rightarrow> model_event" where
  "event_of_type t =
     \<lparr>ev_type = Some t, ev_name = None, ev_arguments = ArgsUnparseable, ev_delta = None,
      ev_content = None, ev_transcript = None\<rparr>"


definition audio_fragment :: "string \<Rightarrow> model_event" where
  "audio_fragment payload = (event_of_type ''response.audio.delta'')\<lparr>ev_delta := Some payload\<rparr>"

definition user_said :: "string \<Rightarrow> model_event" where
  "user_said t = (event_of_type ''conversation.item.input_audio_transcription.completed'')
     \<lparr>ev_transcript := Some t\<rparr>"


definition SessionUpdates :: "effect list \<Rightarrow> nat" where
  "SessionUpdates evs = length (filter (\<lambda>e. e = ToModel SessionUpdate) evs)"


definition storage_down :: "unit env" where
  "storage_down = sample_env\<lparr>dbUpdateBookingState := (\<lambda>phone b w. (Inl ''unavailable'', w))\<rparr>"

definition choosing_time :: "unit session" where
  "choosing_time = (initializeOpenAiWebSocket ())\<lparr>bookingState := awaiting_time\<rparr>"

section \<open>Properties of the retry adapter\<close>

lemma withRetry_from_exhausted:
  "withRetry_from RETRY_OPTIONS operation 3 lastError st = (Inl lastError, st, [])"
  by (subst withRetry_from.simps) (simp add: RETRY_OPTIONS_def)

lemma withRetry_from_third:
  "withRetry_from RETRY_OPTIONS operation 2 lastError st =
     (case operation st of
        (Inr v, st') \<Rightarrow> (Inr v, st', [Attempt (Inr v)])
      | (Inl error, st') \<Rightarrow> (Inl (Some error), st', [Attempt (Inl error), ErrorLogged 3]))"
proof -
  have three: "Suc (Suc (Suc 0)) = 3" by simp
  show ?thesis
    by (subst withRetry_from.simps)
       (simp add: RETRY_OPTIONS_def three withRetry_from_exhausted [unfolded RETRY_OPTIONS_def]
             split: prod.splits sum.splits)
qed

lemma withRetry_from_second:
  "withRetry_from RETRY_OPTIONS operation (Suc 0) lastError st =
     (case operation st of
        (Inr v, st') \<Rightarrow> (Inr v, st', [Attempt (Inr v)])
      | (Inl error, st') \<Rightarrow>
          (case withRetry_from RETRY_OPTIONS operation 2 (Some error) st' of
             (r, st'', evs) \<Rightarrow>
               (r, st'', [Attempt (Inl error), ErrorLogged 2, Delay 2000] @ evs)))"
proof -
  have two: "Suc (Suc 0) = 2" by simp
  show ?thesis
    by (subst withRetry_from.simps)
       (simp add: RETRY_OPTIONS_def two split: prod.splits sum.splits)
qed

lemma withRetry_from_first:
  "withRetry_from RETRY_OPTIONS operation 0 lastError st =
     (case operation st of
        (Inr v, st') \<Rightarrow> (Inr v, st', [Attempt (Inr v)])
      | (Inl error, st') \<Rightarrow>
          (case withRetry_from RETRY_OPTIONS operation (Suc 0) (Some error) st' of
             (r, st'', evs) \<Rightarrow>
               (r, st'', [Attempt (Inl error), ErrorLogged 1, Delay 1000] @ evs)))"
  by (subst withRetry_from.simps)
     (simp add: RETRY_OPTIONS_def split: prod.splits sum.splits)

lemma withRetry_cases:
  "withRetry RETRY_OPTIONS operation st =
     (case operation st of
        (Inr v, s1) \<Rightarrow> (Inr v, s1, [Attempt (Inr v)])
      | (Inl e1, s1) \<Rightarrow>
          (case operation s1 of
             (Inr v, s2) \<Rightarrow>
               (Inr v, s2, [Attempt (Inl e1), ErrorLogged 1, Delay 1000, Attempt (Inr v)])
           | (Inl e2, s2) \<Rightarrow>
               (case operation s2 of
                  (Inr v, s3) \<Rightarrow>
                    (Inr v, s3,
                     [Attempt (Inl e1), ErrorLogged 1, Delay 1000,
                      Attempt (Inl e2), ErrorLogged 2, Delay 2000, Attempt (Inr v)])
                | (Inl e3, s3) \<Rightarrow>
                    (Inl (Some e3), s3,
                     [Attempt (Inl e1), ErrorLogged 1, Delay 1000,
                      Attempt (Inl e2), ErrorLogged 2, Delay 2000,
                      Attempt (Inl e3), ErrorLogged 3]))))"
  by (simp add: withRetry_def withRetry_from_first withRetry_from_second withRetry_from_third
           split: prod.splits sum.splits)

lemma withRetry_shapes:
  assumes run: "withRetry RETRY_OPTIONS operation st = (r, st', evs)"
  shows "(\<exists>v. r = Inr v \<and> evs = [Attempt (Inr v)])
       \<or> (\<exists>e1 v. r = Inr v \<and>
             evs = [Attempt (Inl e1), ErrorLogged 1, Delay 1000, Attempt (Inr v)])
       \<or> (\<exists>e1 e2 v. r = Inr v \<and>
             evs = [Attempt (Inl e1), ErrorLogged 1, Delay 1000,
                    Attempt (Inl e2), ErrorLogged 2, Delay 2000, Attempt (Inr v)])
       \<or> (\<exists>e1 e2 e3. r = Inl (Some e3) \<and>
             evs = [Attempt (Inl e1), ErrorLogged 1, Delay 1000,
                    Attempt (Inl e2), ErrorLogged 2, Delay 2000,
                    Attempt (Inl e3), ErrorLogged 3])"
  using run by (auto simp: withRetry_cases split: prod.splits sum.splits)

lemma policy_of_outcomes:
  fixes outs :: "('e + 'a) list" and r :: "'e option + 'a"
  assumes len: "length outs \<le> 3" "length outs = length gaps" "outs \<noteq> []"
    and fails: "\<forall>k. Suc k < length outs \<longrightarrow> isl (outs ! k)"
    and res: "case last outs of Inr v \<Rightarrow> r = Inr v
              | Inl e \<Rightarrow> length outs = 3 \<and> r = Inl (Some e)"
    and gaps: "\<forall>k. 0 < k \<and> k < length gaps
                 \<longrightarrow> gaps ! k = [min (1000 * 2 ^ (k - 1)) 5000]"
  shows "length outs \<le> 3
    \<and> (\<forall>k v. k < length outs \<and> outs ! k = Inr v \<longrightarrow> Suc k = length outs \<and> r = Inr v)
    \<and> (\<forall>k. 2 \<le> k \<and> k \<le> length outs
           \<longrightarrow> gaps ! (k - 1) = [min (1000 * 2 ^ (k - 2)) (5000::int)])
    \<and> ((\<forall>k < length outs. isl (outs ! k))
           \<longrightarrow> length outs = 3 \<and> (\<exists>e. last outs = Inl e \<and> r = Inl (Some e)))"
proof (intro conjI allI impI)
  show "length outs \<le> 3" by (rule len)
next
  fix k v assume kv: "k < length outs \<and> outs ! k = Inr v"
  with fails have "\<not> Suc k < length outs" by auto
  with kv show k: "Suc k = length outs" by simp
  from k have "length outs - 1 = k" by simp
  with len have "last outs = outs ! k" by (simp add: last_conv_nth)
  with kv res show "r = Inr v" by simp
next
  fix k assume "2 \<le> k \<and> k \<le> length outs"
  with len have "0 < k - 1 \<and> k - 1 < length gaps" and "k - 1 - 1 = k - 2" by auto
  with gaps show "gaps ! (k - 1) = [min (1000 * 2 ^ (k - 2)) 5000]" by metis
next
  assume all: "\<forall>k < length outs. isl (outs ! k)"
  from len have "last outs = outs ! (length outs - 1)" by (simp add: last_conv_nth)
  moreover from len have "length outs - 1 < length outs" by (cases outs) auto
  ultimately have "isl (last outs)" using all by simp
  then obtain e where e: "last outs = Inl e" by (cases "last outs") auto
  with res show "length outs = 3" by simp
  from e res show "\<exists>e. last outs = Inl e \<and> r = Inl (Some e)" by simp
qed

text \<open>
  Claim C1. For every operation wrapped by \<open>withRetry\<close> with the default options
  (\<open>maxRetries = 3\<close>, \<open>baseDelay = 1000\<close>, \<open>maxDelay = 5000\<close>) and every state of the
  outside world: at most \<open>maxRetries\<close> invocations are made; an invocation that succeeds
  is the last one and its result is returned; for \<open>k \<ge> 2\<close>, exactly one delay is waited
  between invocation \<open>k - 1\<close> and invocation \<open>k\<close>, and it is
  \<open>min (baseDelay * 2 ^ (k - 2)) maxDelay\<close>; and if every invocation fails, there were
  \<open>maxRetries\<close> of them and the failure of the last one is thrown.
\<close>

theorem withRetry_policy:
  assumes run: "withRetry RETRY_OPTIONS operation st = (r, st', evs)"
  shows "length (attempts evs) \<le> maxRetries RETRY_OPTIONS
    \<and> (\<forall>k v. k < length (attempts evs) \<and> attempts evs ! k = Inr v
           \<longrightarrow> Suc k = length (attempts evs) \<and> r = Inr v)
    \<and> (\<forall>k. 2 \<le> k \<and> k \<le> length (attempts evs)
           \<longrightarrow> delays_before evs [] ! (k - 1)
               = [min (baseDelay RETRY_OPTIONS * 2 ^ (k - 2)) (maxDelay RETRY_OPTIONS)])
    \<and> ((\<forall>k < length (attempts evs). isl (attempts evs ! k))
           \<longrightarrow> length (attempts evs) = maxRetries RETRY_OPTIONS
               \<and> (\<exists>e. last (attempts evs) = Inl e \<and> r = Inl (Some e)))"
proof -
  have opts: "maxRetries RETRY_OPTIONS = 3" "baseDelay RETRY_OPTIONS = 1000"
    "maxDelay RETRY_OPTIONS = 5000"
    by (simp_all add: RETRY_OPTIONS_def)
  have k2: "k < 2 \<longleftrightarrow> k = 0 \<or> k = 1" for k :: nat by arith
  have k3: "k < 3 \<longleftrightarrow> k = 0 \<or> k = 1 \<or> k = 2" for k :: nat by arith
  have s2: "Suc k < 2 \<longleftrightarrow> k = 0" for k :: nat by arith
  have s3: "Suc k < 3 \<longleftrightarrow> k = 0 \<or> k = 1" for k :: nat by arith
  note rule = policy_of_outcomes [where outs = "attempts evs" and gaps = "delays_before evs []"
      and r = r, folded opts]
  from withRetry_shapes [OF run] show ?thesis
  proof (elim disjE exE conjE)
    fix v assume "r = Inr v" "evs = [Attempt (Inr v)]"
    then show ?thesis
      by (intro rule) (auto simp: opts)
  next
    fix e1 v assume "r = Inr v"
      "evs = [Attempt (Inl e1), ErrorLogged 1, Delay 1000, Attempt (Inr v)]"
    then show ?thesis
      by (intro rule) (auto simp: opts less_Suc_eq numeral_2_eq_2 numeral_3_eq_3)
  next
    fix e1 e2 v assume "r = Inr v"
      "evs = [Attempt (Inl e1), ErrorLogged 1, Delay 1000,
              Attempt (Inl e2), ErrorLogged 2, Delay 2000, Attempt (Inr v)]"
    then show ?thesis
      by (intro rule) (auto simp: opts less_Suc_eq numeral_2_eq_2 numeral_3_eq_3)
  next
    fix e1 e2 e3 assume "r = Inl (Some e3)"
      "evs = [Attempt (Inl e1), ErrorLogged 1, Delay 1000,
              Attempt (Inl e2), ErrorLogged 2, Delay 2000,
              Attempt (Inl e3), ErrorLogged 3]"
    then show ?thesis
      by (intro rule) (auto simp: opts less_Suc_eq numeral_2_eq_2 numeral_3_eq_3)
  qed
qed


theorem withRetry_policy_witness:
  "withRetry RETRY_OPTIONS flaky 0 =
     (Inr 42, 3,
      [Attempt (Inl ''timeout''), ErrorLogged 1, Delay 1000,
       Attempt (Inl ''timeout''), ErrorLogged 2, Delay 2000, Attempt (Inr 42)])
   \<and> length (attempts [Attempt (Inl ''timeout''), ErrorLogged 1, Delay 1000,
                        Attempt (Inl ''timeout''), ErrorLogged 2, Delay 2000,
                        Attempt (Inr (42::nat)) :: (string, nat) retry_event]) \<le> 3
   \<and> delays_before [Attempt (Inl ''timeout''), ErrorLogged 1, Delay 1000,
                     Attempt (Inl ''timeout''), ErrorLogged 2, Delay 2000,
                     Attempt (Inr (42::nat)) :: (string, nat) retry_event] [] ! 2 = [2000]"
proof -
  have run: "withRetry RETRY_OPTIONS flaky 0 =
     (Inr 42, 3,
      [Attempt (Inl ''timeout''), ErrorLogged 1, Delay 1000,
       Attempt (Inl ''timeout''), ErrorLogged 2, Delay 2000, Attempt (Inr 42)])"
    by (simp add: withRetry_cases flaky_def numeral_3_eq_3)
  from withRetry_policy [OF run] show ?thesis
    using run by (simp add: RETRY_OPTIONS_def)
qed

section \<open>Reading the result of a handler\<close>

lemma state_of_after [simp]: "state_of (after pre m) = state_of m"
  by (cases m) simp_all

lemma effects_of_after [simp]: "effects_of (after pre m) = pre @ effects_of m"
  by (cases m) simp_all

lemma value_of_after [simp]: "value_of (after pre m) = value_of m"
  by (cases m) simp_all

lemma state_of_bnd:
  "state_of (bnd m f) =
     (case value_of m of None \<Rightarrow> state_of m | Some a \<Rightarrow> state_of (f a (state_of m)))"
  by (cases m) simp_all

lemma effects_of_bnd:
  "effects_of (bnd m f) =
     effects_of m @ (case value_of m of None \<Rightarrow> [] | Some a \<Rightarrow> effects_of (f a (state_of m)))"
  by (cases m) simp_all

lemma value_of_bnd:
  "value_of (bnd m f) =
     (case value_of m of None \<Rightarrow> None | Some a \<Rightarrow> value_of (f a (state_of m)))"
  by (cases m) simp_all

text \<open>No \<^verbatim>\<open>catch\<close> block of the source reads the value it caught.\<close>

lemma state_of_try_catch:
  "state_of (try_catch m (\<lambda>error. h)) =
     (case value_of m of None \<Rightarrow> state_of (h (state_of m)) | Some a \<Rightarrow> state_of m)"
  by (cases m) simp_all

lemma effects_of_try_catch:
  "effects_of (try_catch m (\<lambda>error. h)) =
     effects_of m @ (case value_of m of None \<Rightarrow> effects_of (h (state_of m)) | Some a \<Rightarrow> [])"
  by (cases m) simp_all

lemma value_of_try_catch:
  "value_of (try_catch m (\<lambda>error. h)) =
     (case value_of m of None \<Rightarrow> value_of (h (state_of m)) | Some a \<Rightarrow> Some a)"
  by (cases m) simp_all

lemmas result_simps =
  state_of_bnd effects_of_bnd value_of_bnd
  state_of_try_catch effects_of_try_catch value_of_try_catch

lemma state_of_invoke [simp]:
  "state_of (invoke c operation s) = s\<lparr>world := snd (operation (world s))\<rparr>"
  by (simp add: invoke_def split: prod.splits sum.splits)

lemma effects_of_invoke [simp]: "effects_of (invoke c operation s) = [Invoked c]"
  by (simp add: invoke_def split: prod.splits sum.splits)

lemma value_of_invoke [simp]:
  "value_of (invoke c operation s) =
     (case fst (operation (world s)) of Inl e \<Rightarrow> None | Inr v \<Rightarrow> Some v)"
  by (simp add: invoke_def split: prod.splits sum.splits)

lemma state_of_invokeWithRetry [simp]:
  "state_of (invokeWithRetry c operation s) =
     s\<lparr>world := fst (snd (withRetry RETRY_OPTIONS operation (world s)))\<rparr>"
  by (simp add: invokeWithRetry_def split: prod.splits sum.splits)

lemma effects_of_invokeWithRetry [simp]:
  "effects_of (invokeWithRetry c operation s) =
     map (retry_effect c) (snd (snd (withRetry RETRY_OPTIONS operation (world s))))"
  by (simp add: invokeWithRetry_def split: prod.splits sum.splits)

lemma value_of_invokeWithRetry [simp]:
  "value_of (invokeWithRetry c operation s) =
     (case fst (withRetry RETRY_OPTIONS operation (world s)) of Inl e \<Rightarrow> None | Inr v \<Rightarrow> Some v)"
  by (simp add: invokeWithRetry_def split: prod.splits sum.splits)

lemma retry_effect_cases:
  "retry_effect c ev = Invoked c \<or> retry_effect c ev = Log ''Operation failed''
   \<or> (\<exists>d. retry_effect c ev = Slept d)"
  by (cases ev) simp_all

lemma state_of_emit [simp]: "state_of (emit e s) = s" by (simp add: emit_def)
lemma effects_of_emit [simp]: "effects_of (emit e s) = [e]" by (simp add: emit_def)
lemma value_of_emit [simp]: "value_of (emit e s) = Some ()" by (simp add: emit_def)
lemma state_of_modify [simp]: "state_of (modify f s) = f s" by (simp add: modify_def)
lemma effects_of_modify [simp]: "effects_of (modify f s) = []" by (simp add: modify_def)
lemma value_of_modify [simp]: "value_of (modify f s) = Some ()" by (simp add: modify_def)

lemma state_of_steps_Cons:
  "state_of (steps (step # rest) s) =
     (case value_of (step s) of None \<Rightarrow> state_of (step s)
      | Some a \<Rightarrow> state_of (steps rest (state_of (step s))))"
  by (simp add: state_of_bnd)

lemma effects_of_steps_Cons:
  "effects_of (steps (step # rest) s) =
     effects_of (step s) @ (case value_of (step s) of None \<Rightarrow> []
      | Some a \<Rightarrow> effects_of (steps rest (state_of (step s))))"
  by (simp add: effects_of_bnd)

lemma value_of_steps_Cons:
  "value_of (steps (step # rest) s) =
     (case value_of (step s) of None \<Rightarrow> None
      | Some a \<Rightarrow> value_of (steps rest (state_of (step s))))"
  by (simp add: value_of_bnd)

lemmas steps_simps = state_of_steps_Cons effects_of_steps_Cons value_of_steps_Cons

lemmas handler_defs =
  handleOpenAiMessage_def on_session_created_def on_session_updated_def on_speech_started_def
  log_event_type_def on_function_call_def on_audio_delta_def on_content_done_def
  on_audio_transcript_done_def on_user_transcript_def

section \<open>Booking without a time (\<^verbatim>\<open>bookTrainingSession\<close>, index.js lines 1060-1066)\<close>

text \<open>
  Claim C10. Whenever \<open>bookTrainingSession\<close> is called with an absent preferred time
  (\<^verbatim>\<open>null\<close>, \<^verbatim>\<open>undefined\<close> or the empty string, which \<^verbatim>\<open>!preferredTime\<close> also takes), it
  returns \<open>False\<close>, leaves the session and the outside world as they were, and does nothing
  but write one line to the console: the calendar is not invoked, no booking is created
  and the user's address is not updated.
\<close>

theorem bookTrainingSession_without_time:
  assumes "\<not> truthy preferredTime"
  shows "bookTrainingSession env preferredTime addr s
           = Done False s [Log ''Preferred time is not set.'']
       \<and> Invoked CalendarInsert \<notin> set (effects_of (bookTrainingSession env preferredTime addr s))
       \<and> Invoked CreateBooking \<notin> set (effects_of (bookTrainingSession env preferredTime addr s))
       \<and> Invoked UpdateUserEmail \<notin> set (effects_of (bookTrainingSession env preferredTime addr s))"
  using assms
  by (auto simp: bookTrainingSession_def truthy_def emit_def split: option.splits)

theorem bookTrainingSession_without_time_witness:
  "\<not> truthy None
   \<and> bookTrainingSession sample_env None (Some ''ash@example.com'') (initializeOpenAiWebSocket ())
       = Done False (initializeOpenAiWebSocket ()) [Log ''Preferred time is not set.'']"
  using bookTrainingSession_without_time [of None sample_env "Some ''ash@example.com''"
      "initializeOpenAiWebSocket ()"]
  by (simp add: truthy_def)

section \<open>Interruption (\<^verbatim>\<open>handleOpenAiMessage\<close>, index.js lines 360-376 and 508-518)\<close>

text \<open>
  Claim C6. When an audio fragment A, the start of user speech and an audio fragment B
  arrive in this order on the model connection of a session, then whatever the session
  and the outside world are, and whether or not A is forwarded (it is not when its
  \<^verbatim>\<open>delta\<close> is missing or empty), what happens is, in this order: the forwarding of A if
  any, the \<^verbatim>\<open>clear\<close> frame to the telephony side, \<^verbatim>\<open>response.cancel\<close> to the model, and
  only then the forwarding of B if any. The session is left unchanged. None of the three
  handlers reaches an \<^verbatim>\<open>await\<close>, so each runs to its end before the next message is
  handled.
\<close>

theorem interruption_before_next_fragment:
  assumes a: "ev_type a = Some ''response.audio.delta''"
    and i: "ev_type i = Some ''input_audio_buffer.speech_started''"
    and b: "ev_type b = Some ''response.audio.delta''"
  shows "run env [ModelMessage (Parsed a), ModelMessage (Parsed i), ModelMessage (Parsed b)] s =
     (s,
      (if truthy (ev_delta a) then [ToTwilio (Media (streamSid s) (shown (ev_delta a)))] else [])
      @ [Log ''Speech Start:'', ToTwilio (Clear (streamSid s)),
         Log ''Cancelling AI speech from the server'', ToModel ResponseCancel,
         Log ''Received event:'']
      @ (if truthy (ev_delta b) then [ToTwilio (Media (streamSid s) (shown (ev_delta b)))] else []))"
  by (simp add: handle_def handler_defs LOG_EVENT_TYPES_def emit_def a i b)

theorem interruption_before_next_fragment_witness:
  "ev_type (audio_fragment ''QUJD'') = Some ''response.audio.delta''
   \<and> ev_type (event_of_type ''input_audio_buffer.speech_started'')
       = Some ''input_audio_buffer.speech_started''
   \<and> ev_type (audio_fragment ''REVG'') = Some ''response.audio.delta''
   \<and> run sample_env
        [ModelMessage (Parsed (audio_fragment ''QUJD'')),
         ModelMessage (Parsed (event_of_type ''input_audio_buffer.speech_started'')),
         ModelMessage (Parsed (audio_fragment ''REVG''))]
        ((initializeOpenAiWebSocket ())\<lparr>streamSid := Some ''MZ1''\<rparr>)
      = ((initializeOpenAiWebSocket ())\<lparr>streamSid := Some ''MZ1''\<rparr>,
         [ToTwilio (Media (Some ''MZ1'') ''QUJD''),
          Log ''Speech Start:'', ToTwilio (Clear (Some ''MZ1'')),
          Log ''Cancelling AI speech from the server'', ToModel ResponseCancel,
          Log ''Received event:'',
          ToTwilio (Media (Some ''MZ1'') ''REVG'')])"
  using interruption_before_next_fragment [of "audio_fragment ''QUJD''"
      "event_of_type ''input_audio_buffer.speech_started''" "audio_fragment ''REVG''"
      sample_env "(initializeOpenAiWebSocket ())\<lparr>streamSid := Some ''MZ1''\<rparr>"]
  by (simp add: audio_fragment_def event_of_type_def truthy_def shown_def
      initializeOpenAiWebSocket_def)

section \<open>Messages that no branch reacts to (index.js lines 651-658 and 745-751)\<close>


lemma unparseable_model_message:
  "handleOpenAiMessage env Unparseable s = Done () s [Log ''Error processing OpenAI message:'']"
  "handleOpenAiMessage env ParsedNull s = Done () s [Log ''Error processing OpenAI message:'']"
  by (simp_all add: handleOpenAiMessage_def emit_def)






text \<open>
  A message with a known tag and no payload is not always dropped: the transcript of the
  assistant is appended to the dialogue without a check, where the transcript of the user
  is checked first (index.js lines 572 and 585).
\<close>

lemma transcript_done_without_transcript:
  "fullDialogue (state_of
     (handleOpenAiMessage sample_env (Parsed (event_of_type ''response.audio_transcript.done''))
        (initializeOpenAiWebSocket ())))
   = ''AI: undefined'' @ [CHR 0x0A]"
  by (simp add: handler_defs event_of_type_def LOG_EVENT_TYPES_def emit_def modify_def
      updateLastConversation_def truthy_def shown_def line_def initializeOpenAiWebSocket_def)

lemmas wrapper_defs =
  createOrGetUserWithRetry_def updateUserNameWithRetry_def updateUserEmailWithRetry_def
  createConversationWithRetry_def updateConversationWithRetry_def
  finalizeConversationInDbWithRetry_def getLastConversationWithRetry_def
  createBookingWithRetry_def updateBookingStateWithRetry_def

section \<open>What a handler leaves unchanged\<close>


lemma order_like_same_booking: "order_like same_booking"
  by (auto simp: order_like_def same_booking_def)

lemma leaves_Done: "order_like R \<Longrightarrow> leaves R s (Done a s evs)"
  by (simp add: leaves_def order_like_def)

lemma leaves_Threw: "order_like R \<Longrightarrow> leaves R s (Threw e s evs)"
  by (simp add: leaves_def order_like_def)

lemma leaves_emit: "order_like R \<Longrightarrow> leaves R s (emit e s)"
  by (simp add: leaves_def order_like_def)

lemma leaves_invoke: "order_like R \<Longrightarrow> leaves R s (invoke c operation s)"
  by (simp add: leaves_def order_like_def)

lemma leaves_invokeWithRetry: "order_like R \<Longrightarrow> leaves R s (invokeWithRetry c operation s)"
  by (simp add: leaves_def order_like_def)

lemma leaves_bnd:
  assumes "order_like R" "leaves R s m" "\<And>a. leaves R (state_of m) (f a (state_of m))"
  shows "leaves R s (bnd m f)"
  using assms by (cases m) (auto simp: leaves_def order_like_def)

lemma leaves_try_catch:
  assumes "order_like R" "leaves R s m" "\<And>e. leaves R (state_of m) (h e (state_of m))"
  shows "leaves R s (try_catch m h)"
  using assms by (cases m) (auto simp: leaves_def order_like_def)

lemma leaves_steps_Nil: "order_like R \<Longrightarrow> leaves R s (steps [] s)"
  by (simp add: leaves_def order_like_def)

lemma leaves_steps_Cons:
  assumes "order_like R" "leaves R s (step s)"
    "leaves R (state_of (step s)) (steps rest (state_of (step s)))"
  shows "leaves R s (steps (step # rest) s)"
  using assms by (simp add: leaves_bnd)

lemmas leaves_intros =
  leaves_Done leaves_Threw leaves_emit leaves_invoke leaves_invokeWithRetry leaves_bnd
  leaves_try_catch leaves_steps_Nil leaves_steps_Cons

lemma leaves_modify:
  "same_booking s (f s) \<Longrightarrow> leaves same_booking s (modify f s)"
  by (simp add: leaves_def)

lemma after_Nil [simp]: "after [] m = m"
  by (cases m) simp_all

lemma leaves_if:
  "(c \<Longrightarrow> leaves R s m) \<Longrightarrow> (\<not> c \<Longrightarrow> leaves R s m') \<Longrightarrow> leaves R s (if c then m else m')"
  by simp

section \<open>The effects of a handler\<close>

lemma all_Done: "(\<And>e. e \<in> set evs \<Longrightarrow> p e) \<Longrightarrow> all_effects p (Done a s evs)"
  by (simp add: all_effects_def)

lemma all_Threw: "(\<And>e. e \<in> set evs \<Longrightarrow> p e) \<Longrightarrow> all_effects p (Threw x s evs)"
  by (simp add: all_effects_def)

lemma all_emit: "p e \<Longrightarrow> all_effects p (emit e s)"
  by (simp add: all_effects_def)

lemma all_modify: "all_effects p (modify f s)"
  by (simp add: all_effects_def)

lemma all_invoke: "p (Invoked c) \<Longrightarrow> all_effects p (invoke c operation s)"
  by (simp add: all_effects_def)

lemma retry_effect_holds:
  assumes "p (Invoked c)" "p (Log ''Operation failed'')" "\<And>d. p (Slept d)"
  shows "p (retry_effect c ev)"
  using assms by (cases ev) simp_all

lemma all_invokeWithRetry:
  assumes "p (Invoked c)" "p (Log ''Operation failed'')" "\<And>d. p (Slept d)"
  shows "all_effects p (invokeWithRetry c operation s)"
  using retry_effect_holds [of p c, OF assms] by (auto simp: all_effects_def)

lemma all_bnd:
  assumes "all_effects p m" "\<And>a. value_of m = Some a \<Longrightarrow> all_effects p (f a (state_of m))"
  shows "all_effects p (bnd m f)"
  using assms by (cases m) (auto simp: all_effects_def)

lemma all_try_catch:
  assumes "all_effects p m" "\<And>e. value_of m = None \<Longrightarrow> all_effects p (h e (state_of m))"
  shows "all_effects p (try_catch m h)"
  using assms by (cases m) (auto simp: all_effects_def)

lemma all_steps_Nil: "all_effects p (steps [] s)"
  by (simp add: all_effects_def)

lemma all_steps_Cons:
  assumes "all_effects p (step s)"
    "value_of (step s) = Some () \<Longrightarrow> all_effects p (steps rest (state_of (step s)))"
  shows "all_effects p (steps (step # rest) s)"
  using assms by (auto intro!: all_bnd)

lemmas all_intros =
  all_Done all_Threw all_emit all_modify all_invoke all_invokeWithRetry all_bnd all_try_catch
  all_steps_Nil all_steps_Cons

lemma all_effects_mono:
  "all_effects p m \<Longrightarrow> (\<And>e. p e \<Longrightarrow> q e) \<Longrightarrow> all_effects q m"
  by (auto simp: all_effects_def)

section \<open>Handlers that do not touch the booking fields\<close>

lemma updateLastConversation_leaves:
  "order_like R \<Longrightarrow> leaves R s (updateLastConversation env phone question answer s)"
  unfolding updateLastConversation_def wrapper_defs
  by (auto intro!: leaves_intros)

lemma updateLastConversation_plain:
  "all_effects plain (updateLastConversation env phone question answer s)"
  unfolding updateLastConversation_def wrapper_defs
  by (auto intro!: all_intros)

lemma bookTrainingSession_leaves:
  "order_like R \<Longrightarrow> leaves R s (bookTrainingSession env preferredTime addr s)"
  unfolding bookTrainingSession_def bookingNotCreated_def wrapper_defs
  by (auto intro!: leaves_intros split: option.splits)

lemma bookTrainingSession_plain:
  "all_effects plain (bookTrainingSession env preferredTime addr s)"
  unfolding bookTrainingSession_def bookingNotCreated_def wrapper_defs
  by (auto intro!: all_intros split: option.splits)

lemma handleIncomingCall_leaves:
  "leaves same_booking s (handleIncomingCall env sid s)"
  unfolding handleIncomingCall_def greet_def sendUserMessage_def wrapper_defs
  by (auto intro!: leaves_intros leaves_modify order_like_same_booking simp: same_booking_def
      split: option.splits)

lemma handleIncomingCall_plain:
  "all_effects plain (handleIncomingCall env sid s)"
  unfolding handleIncomingCall_def greet_def sendUserMessage_def wrapper_defs
  by (auto intro!: all_intros split: option.splits)


lemma finalizeConversation_plain:
  "all_effects plain (finalizeConversation env s)"
  unfolding finalizeConversation_def extractUserNameFromSummary_def wrapper_defs
  by (auto intro!: all_intros split: option.splits)

lemma access_knowledge_base_leaves:
  "leaves same_booking s (access_knowledge_base env response s)"
  unfolding access_knowledge_base_def askSupabaseAssistant_def
  by (auto intro!: leaves_intros leaves_modify order_like_same_booking simp: same_booking_def
      split: option.splits tool_args.splits)

lemma access_knowledge_base_plain:
  "all_effects plain (access_knowledge_base env response s)"
  unfolding access_knowledge_base_def askSupabaseAssistant_def
  by (auto intro!: all_intros split: option.splits tool_args.splits)


lemma plain_tracked: "plain e \<Longrightarrow> tracked e"
  by (cases e) simp_all

lemma plain_state_only: "plain e \<Longrightarrow> state_only e"
  by (cases e) simp_all

lemma state_of_assign [simp]:
  "state_of (assign_preferred_time v s) = s\<lparr>preferred_time := v\<rparr>"
  "state_of (assign_email v s) = s\<lparr>email := v\<rparr>"
  "state_of (assign_bookingState b s) = s\<lparr>bookingState := b\<rparr>"
  by (simp_all add: assign_preferred_time_def assign_email_def assign_bookingState_def)

lemma effects_of_assign [simp]:
  "effects_of (assign_preferred_time v s)
     = [Assigned Preferred_time (bookingState s) (email s) (bookingState s)]"
  "effects_of (assign_email v s) = [Assigned Email (bookingState s) v (bookingState s)]"
  "effects_of (assign_bookingState b s) = [Assigned BookingState (bookingState s) (email s) b]"
  by (simp_all add: assign_preferred_time_def assign_email_def assign_bookingState_def)

lemma value_of_assign [simp]:
  "value_of (assign_preferred_time v s) = Some ()"
  "value_of (assign_email v s) = Some ()"
  "value_of (assign_bookingState b s) = Some ()"
  by (simp_all add: assign_preferred_time_def assign_email_def assign_bookingState_def)

lemma all_assign:
  "p (Assigned Preferred_time (bookingState s) (email s) (bookingState s))
     \<Longrightarrow> all_effects p (assign_preferred_time v s)"
  "p (Assigned Email (bookingState s) v (bookingState s)) \<Longrightarrow> all_effects p (assign_email v s)"
  "p (Assigned BookingState (bookingState s) (email s) b)
     \<Longrightarrow> all_effects p (assign_bookingState b s)"
  by (simp_all add: all_effects_def)

lemma validateEmail_nonempty: "validateEmail e \<Longrightarrow> e \<noteq> []"
  by (auto simp: validateEmail_def matches.simps)

section \<open>The handlers of the booking flow\<close>



lemma askForEmail_tracked:
  "bookingState s \<noteq> idle \<Longrightarrow> all_effects tracked (askForEmail env s)"
  unfolding askForEmail_def askNewEmail_def wrapper_defs
  by (auto intro!: all_intros all_assign simp: truthy_def split: option.splits)

lemma confirmEmail_tracked:
  "truthy (email s) \<Longrightarrow> all_effects tracked (confirmEmail env addr s)"
  unfolding confirmEmail_def wrapper_defs
  by (auto intro!: all_intros all_assign)

lemma afterBooking_tracked: "all_effects tracked (afterBooking env said s)"
  unfolding afterBooking_def wrapper_defs
  by (auto intro!: all_intros all_assign)

lemma askForSuitableTime_tracked: "all_effects tracked (askForSuitableTime env s)"
  unfolding askForSuitableTime_def wrapper_defs
  by (auto intro!: all_intros all_assign)

lemma bookTrainingSession_tracked:
  "all_effects tracked (bookTrainingSession env preferredTime addr s)"
  by (rule all_effects_mono [OF bookTrainingSession_plain plain_tracked])

lemma bookTrainingSession_booking [simp]:
  "bookingState (state_of (bookTrainingSession env preferredTime addr s)) = bookingState s"
  "email (state_of (bookTrainingSession env preferredTime addr s)) = email s"
  "preferred_time (state_of (bookTrainingSession env preferredTime addr s)) = preferred_time s"
  using bookTrainingSession_leaves [OF order_like_same_booking, of s env preferredTime addr]
  by (simp_all add: leaves_def same_booking_def)

lemma handleEmailConfirmation_tracked:
  "bookingState s \<noteq> idle \<Longrightarrow> all_effects tracked (handleEmailConfirmation env confirmation addr s)"
  unfolding handleEmailConfirmation_def
  by (auto intro!: all_intros bookTrainingSession_tracked afterBooking_tracked askForEmail_tracked)

lemma handleExistingEmailConfirmation_tracked:
  "all_effects tracked (handleExistingEmailConfirmation env confirmation s)"
  unfolding handleExistingEmailConfirmation_def wrapper_defs
  by (auto intro!: all_intros all_assign bookTrainingSession_tracked afterBooking_tracked)

lemma schedule_training_session_tracked:
  "all_effects tracked (schedule_training_session env response s)"
  unfolding schedule_training_session_def
  by (auto intro!: all_intros bookTrainingSession_tracked afterBooking_tracked
      split: tool_args.splits)

lemma take_time_tracked:
  "bookingState s = awaiting_time \<Longrightarrow> all_effects tracked (take_time env said logged s)"
  unfolding take_time_def parseUserTime_def wrapper_defs
  by (auto intro!: all_intros all_assign askForEmail_tracked)

lemma take_email_tracked:
  "bookingState s = awaiting_email \<Longrightarrow> all_effects tracked (take_email env t s)"
  unfolding take_email_def wrapper_defs
  by (auto intro!: all_intros all_assign confirmEmail_tracked dest: validateEmail_nonempty
      simp: truthy_def)

lemma all_plain_tracked: "all_effects plain m \<Longrightarrow> all_effects tracked m"
  by (rule all_effects_mono [OF _ plain_tracked])

lemma updateLastConversation_tracked:
  "all_effects tracked (updateLastConversation env phone question answer s)"
  by (rule all_plain_tracked [OF updateLastConversation_plain])

lemma handleIncomingCall_tracked: "all_effects tracked (handleIncomingCall env sid s)"
  by (rule all_plain_tracked [OF handleIncomingCall_plain])

lemma finalizeConversation_tracked: "all_effects tracked (finalizeConversation env s)"
  by (rule all_plain_tracked [OF finalizeConversation_plain])

lemma access_knowledge_base_tracked: "all_effects tracked (access_knowledge_base env response s)"
  by (rule all_plain_tracked [OF access_knowledge_base_plain])

lemma on_session_created_tracked:
  "ev_type response \<noteq> Some ''session.created'' \<Longrightarrow> all_effects tracked (on_session_created response s)"
  by (simp add: on_session_created_def all_effects_def)

lemma on_session_updated_tracked: "all_effects tracked (on_session_updated env response s)"
  unfolding on_session_updated_def
  by (auto intro!: all_intros handleIncomingCall_tracked)

lemma on_speech_started_tracked: "all_effects tracked (on_speech_started response s)"
  unfolding on_speech_started_def
  by (auto intro!: all_intros)

lemma log_event_type_tracked: "all_effects tracked (log_event_type response s)"
  unfolding log_event_type_def
  by (auto intro!: all_intros split: option.splits)

lemma on_function_call_tracked: "all_effects tracked (on_function_call env response s)"
  unfolding on_function_call_def
  by (auto intro!: all_intros access_knowledge_base_tracked schedule_training_session_tracked)

lemma on_audio_delta_tracked: "all_effects tracked (on_audio_delta response s)"
  unfolding on_audio_delta_def
  by (auto intro!: all_intros)

lemma on_content_done_tracked: "all_effects tracked (on_content_done env response s)"
  unfolding on_content_done_def
  by (auto intro!: all_intros updateLastConversation_tracked askForSuitableTime_tracked
      take_time_tracked handleEmailConfirmation_tracked split: bstate.splits option.splits)

lemma on_audio_transcript_done_tracked:
  "all_effects tracked (on_audio_transcript_done env response s)"
  unfolding on_audio_transcript_done_def
  by (auto intro!: all_intros updateLastConversation_tracked)

lemma append_user_message_tracked: "all_effects tracked (append_user_message said s)"
  unfolding append_user_message_def
  by (auto intro!: all_intros split: option.splits)

lemma on_user_transcript_tracked: "all_effects tracked (on_user_transcript env response s)"
  unfolding on_user_transcript_def
  by (auto intro!: all_intros updateLastConversation_tracked append_user_message_tracked
      take_time_tracked take_email_tracked handleEmailConfirmation_tracked
      handleExistingEmailConfirmation_tracked split: bstate.splits option.splits)

lemma handleOpenAiMessage_tracked:
  assumes "\<not> configures (ModelMessage data)"
  shows "all_effects tracked (handleOpenAiMessage env data s)"
proof (cases data)
  case (Parsed response)
  with assms have "ev_type response \<noteq> Some ''session.created''" by simp
  then show ?thesis
    unfolding handleOpenAiMessage_def Parsed
    by (auto intro!: all_intros on_session_created_tracked on_session_updated_tracked
        on_speech_started_tracked log_event_type_tracked on_function_call_tracked
        on_audio_delta_tracked on_content_done_tracked on_audio_transcript_done_tracked
        on_user_transcript_tracked)
qed (simp_all add: unparseable_model_message all_effects_def)

lemma handleTwilioMessage_tracked: "all_effects tracked (handleTwilioMessage env message s)"
  unfolding handleTwilioMessage_def
  by (auto intro!: all_intros finalizeConversation_tracked split: parsed.splits option.splits)

lemma on_model_close_tracked: "all_effects tracked (on_model_close env s)"
  unfolding on_model_close_def
  by (auto intro!: all_intros finalizeConversation_tracked)

lemma on_model_error_tracked: "all_effects tracked (on_model_error s)"
  unfolding on_model_error_def
  by (auto intro!: all_intros)

lemma handle_tracked:
  "\<not> configures ev \<Longrightarrow> all_effects tracked (handle env ev s)"
  unfolding handle_def
  by (cases ev)
     (auto intro!: all_intros handleOpenAiMessage_tracked handleTwilioMessage_tracked
        on_model_close_tracked on_model_error_tracked)

lemma handle_configures:
  assumes "configures ev"
  shows "\<exists>before after. effects_of (handle env ev s) = before @ ToModel SessionUpdate # after
    \<and> (\<forall>e \<in> set (before @ after). \<exists>l d. e = Log l \<or> e = Slept d)"
proof (cases ev)
  case ModelOpen
  have "effects_of (handle env ev s)
      = [Log ''Connected to OpenAI Realtime API'', Slept 250, Log ''Sending session update:'']
        @ ToModel SessionUpdate # []"
    by (simp add: ModelOpen handle_def sendSessionUpdate_def emit_def modify_def)
  then show ?thesis by (intro exI conjI) (assumption, simp)
next
  case (ModelMessage data)
  with assms obtain response where data: "data = Parsed response"
    and t: "ev_type response = Some ''session.created''"
    by (cases data) auto
  have "effects_of (handle env ev s)
      = [Log ''Session created:'', Log ''Sending session update:'']
        @ ToModel SessionUpdate # [Log ''Received event:'']"
    by (simp add: ModelMessage data handle_def handler_defs sendSessionUpdate_def emit_def t
        LOG_EVENT_TYPES_def)
  then show ?thesis by (intro exI conjI) (assumption, simp)
qed (use assms in simp_all)

section \<open>The booking fields are never assigned in \<open>idle\<close>\<close>





section \<open>When the configuration is sent (index.js lines 133-136 and 344-347)\<close>

lemma handle_SessionUpdates:
  "SessionUpdates (effects_of (handle env ev s)) = (if configures ev then 1 else 0)"
proof (cases "configures ev")
  case True
  from handle_configures [OF True, of env s] obtain before after
    where split: "effects_of (handle env ev s) = before @ ToModel SessionUpdate # after"
      and rest: "\<forall>e \<in> set (before @ after). \<exists>l d. e = Log l \<or> e = Slept d"
    by blast
  from rest have "\<forall>e \<in> set (before @ after). e \<noteq> ToModel SessionUpdate" by fastforce
  then have "filter (\<lambda>e. e = ToModel SessionUpdate) before = []"
    "filter (\<lambda>e. e = ToModel SessionUpdate) after = []"
    by (auto simp: filter_empty_conv)
  with split show ?thesis by (simp add: SessionUpdates_def True)
next
  case False
  from handle_tracked [OF False, of env s] have "\<forall>e \<in> set (effects_of (handle env ev s)). e \<noteq> ToModel SessionUpdate"
    by (auto simp: all_effects_def)
  then show ?thesis by (simp add: SessionUpdates_def False filter_empty_conv)
qed

text \<open>
  Claim C5, as the source has it. \<^verbatim>\<open>session.update\<close> is sent once for every opening
  of the model connection (by the timer started on \<^verbatim>\<open>open\<close>) and once more for every
  \<^verbatim>\<open>session.created\<close> message received; no other event makes a handler send it. The
  source never looks at whether the configuration was applied.
\<close>

theorem configuration_sent_on_open_and_session_created:
  "SessionUpdates (snd (run env evs s)) = length (filter configures evs)"
proof (induction evs arbitrary: s)
  case Nil
  then show ?case by (simp add: SessionUpdates_def)
next
  case (Cons ev evs)
  have "SessionUpdates (snd (run env (ev # evs) s))
      = SessionUpdates (effects_of (handle env ev s))
        + SessionUpdates (snd (run env evs (state_of (handle env ev s))))"
    by (simp add: SessionUpdates_def split_beta)
  with Cons show ?case by (simp add: handle_SessionUpdates)
qed


theorem configuration_sent_on_open_and_session_created_witness:
  "SessionUpdates (snd (run sample_env
     [ModelOpen, ModelMessage (Parsed (event_of_type ''session.updated'')),
      ModelMessage (Parsed (audio_fragment ''QUJD''))]
     (initializeOpenAiWebSocket ())))
   = length (filter configures
     [ModelOpen, ModelMessage (Parsed (event_of_type ''session.updated'')),
      ModelMessage (Parsed (audio_fragment ''QUJD''))])"
  by (rule configuration_sent_on_open_and_session_created)

text \<open>
  The claim as the specification states it asks for exactly one \<^verbatim>\<open>session.update\<close> on a
  connection on which the remote side reports no failure. On a connection that opens and
  then receives \<^verbatim>\<open>session.created\<close>, the first message of every session, it is sent
  twice.
\<close>

theorem configuration_sent_twice:
  "SessionUpdates (snd (run sample_env
     [ModelOpen, ModelMessage (Parsed (event_of_type ''session.created''))]
     (initializeOpenAiWebSocket ()))) = 2"
  by code_simp

section \<open>Finalization is not guarded (index.js lines 1130-1134, 219-227 and 741-744)\<close>








section \<open>The pattern of \<^verbatim>\<open>validateEmail\<close> (index.js lines 922-925)\<close>

lemma matches_Nil [simp]: "matches [] s = (s = [])"
  by (simp add: matches.simps)

lemma matches_ClassPlus_Nil [simp]: "\<not> matches (ClassPlus p # items) []"
  by (simp add: matches.simps)

lemma matches_ClassPlus_Cons [simp]:
  "matches (ClassPlus p # items) (x # xs)
     = (p x \<and> (matches (ClassPlus p # items) xs \<or> matches items xs))"
  by (simp add: matches.simps)










section \<open>One message from the model, by its type\<close>











lemma append_user_message_facts [simp]:
  "value_of (append_user_message t s) = Some ()"
  "bookingState (state_of (append_user_message t s)) = bookingState s"
  "email (state_of (append_user_message t s)) = email s"
  "preferred_time (state_of (append_user_message t s)) = preferred_time s"
  "phoneNumber (state_of (append_user_message t s)) = phoneNumber s"
  "world (state_of (append_user_message t s)) = world s"
  by (simp_all add: append_user_message_def result_simps split: option.splits)


lemma updateLastConversation_booking [simp]:
  "bookingState (state_of (updateLastConversation env phone question answer s)) = bookingState s"
  "email (state_of (updateLastConversation env phone question answer s)) = email s"
  "preferred_time (state_of (updateLastConversation env phone question answer s)) = preferred_time s"
  using updateLastConversation_leaves [OF order_like_same_booking, of s env phone question answer]
  by (simp_all add: leaves_def same_booking_def)





lemma confirmEmail_email [simp]: "email (state_of (confirmEmail env addr s)) = email s"
  by (simp add: confirmEmail_def wrapper_defs result_simps split: option.splits)






section \<open>A failed booking (index.js lines 1016-1051, 1253-1302 and 465-505)\<close>

lemma CalendarInserts_simps [simp]:
  "CalendarInserts [] = 0"
  "CalendarInserts (e # evs) = (if e = Invoked CalendarInsert then 1 else 0) + CalendarInserts evs"
  "CalendarInserts (xs @ ys) = CalendarInserts xs + CalendarInserts ys"
  by (simp_all add: CalendarInserts_def)

lemma no_CalendarInserts: "all_effects not_calendar m \<Longrightarrow> CalendarInserts (effects_of m) = 0"
  by (auto simp: all_effects_def CalendarInserts_def filter_empty_conv)


lemma updateLastConversation_not_calendar:
  "all_effects not_calendar (updateLastConversation env phone question answer s)"
  unfolding updateLastConversation_def wrapper_defs by (auto intro!: all_intros)

lemma append_user_message_not_calendar: "all_effects not_calendar (append_user_message t s)"
  unfolding append_user_message_def by (auto intro!: all_intros split: option.splits)





lemma no_calendar_facts [simp]:
  "CalendarInserts (effects_of (append_user_message t s)) = 0"
  "CalendarInserts (effects_of (updateLastConversation env phone question answer s)) = 0"
  by (rule no_CalendarInserts [OF append_user_message_not_calendar],
      rule no_CalendarInserts [OF updateLastConversation_not_calendar])















section \<open>Where the booking fields are assigned (index.js lines 534-541, 596-601, 619-626 and 946-996)\<close>



lemma assigns_simps [simp]:
  "assigns f (Done a s evs) = (\<exists>b em b'. Assigned f b em b' \<in> set evs)"
  "assigns f (Threw x s evs) = (\<exists>b em b'. Assigned f b em b' \<in> set evs)"
  "assigns f (after pre m) = ((\<exists>b em b'. Assigned f b em b' \<in> set pre) \<or> assigns f m)"
  "assigns f (assign_preferred_time v s) = (f = Preferred_time)"
  "assigns f (assign_email v s) = (f = Email)"
  "assigns f (assign_bookingState b s) = (f = BookingState)"
  by (auto simp: assigns_def)

lemma state_only_not_assigned:
  "all_effects state_only m \<Longrightarrow> f \<noteq> BookingState \<Longrightarrow> \<not> assigns f m"
  by (auto simp: all_effects_def assigns_def)

lemma journey_state_only: "all_effects state_only m \<Longrightarrow> journey s m"
  by (simp add: journey_def state_only_not_assigned)

lemma all_plain_state_only: "all_effects plain m \<Longrightarrow> all_effects state_only m"
  by (rule all_effects_mono [OF _ plain_state_only])

lemma journey_plain: "all_effects plain m \<Longrightarrow> journey s m"
  by (rule journey_state_only [OF all_plain_state_only])







lemma retry_effect_not_assigned [simp]:
  "Assigned f b em b' \<noteq> retry_effect c ev"
  "retry_effect c ev \<noteq> Assigned f b em b'"
  by (cases ev, simp_all)+

lemma assigns_invokeWithRetry [simp]: "\<not> assigns f (invokeWithRetry c operation s)"
  by (auto simp: assigns_def)

lemma assigns_emit [simp]:
  "assigns f (emit e s) = (\<exists>b em b'. e = Assigned f b em b')"
  by (auto simp: assigns_def)



































text \<open>
  The exception occurs: when persisting the booking state fails three times, the time
  stays assigned and the session stays in \<open>awaiting_time\<close>.
\<close>

lemma preferred_time_kept_when_storage_fails:
  "effects_of (handle storage_down
       (ModelMessage (Parsed (user_said ''tomorrow at three''))) choosing_time)
     = [Log ''Transcription completed:'', Log ''Appending User message:'',
        Invoked ParseDate,
        Assigned Preferred_time awaiting_time None awaiting_time,
        Invoked (UpdateBookingState awaiting_email), Log ''Operation failed'', Slept 1000,
        Invoked (UpdateBookingState awaiting_email), Log ''Operation failed'', Slept 2000,
        Invoked (UpdateBookingState awaiting_email), Log ''Operation failed'',
        Log ''Error processing OpenAI message:'']
   \<and> bookingState (state_of (handle storage_down
       (ModelMessage (Parsed (user_said ''tomorrow at three''))) choosing_time))
     = awaiting_time
   \<and> preferred_time (state_of (handle storage_down
       (ModelMessage (Parsed (user_said ''tomorrow at three''))) choosing_time))
     = Some sample_time"
  by code_simp

end
